theory Spec2Isabelle
  imports Complex_Main
begin

section \<open>Exceptions and the object store\<close>

text \<open>
  Both handlers wrap their whole body in \<^verbatim>\<open>try: ... except Exception as e\<close> and
  use nothing of the exception but \<^verbatim>\<open>str(e)\<close>, so an exception is its message.
\<close>

datatype exn = Exception (str: string)

type_synonym timestamp = int

text \<open>One entry of \<^verbatim>\<open>response['Contents']\<close>, with the two fields the handlers read.\<close>

record s3_object =
  Key :: string
  LastModified :: timestamp

text \<open>
  Python's \<^verbatim>\<open>max(iterable, key=f)\<close>: the running maximum is replaced only by an
  element whose key is strictly greater, and an empty iterable raises ValueError.
\<close>

fun max_from :: "('a \<Rightarrow> 'k::linorder) \<Rightarrow> 'a \<Rightarrow> 'a list \<Rightarrow> 'a" where
  "max_from key best [] = best"
| "max_from key best (x # xs) =
     (if key best < key x then max_from key x xs else max_from key best xs)"

definition py_max :: "('a \<Rightarrow> 'k::linorder) \<Rightarrow> 'a list \<Rightarrow> exn + 'a" where
  "py_max key xs =
     (case xs of
        [] \<Rightarrow> Inl (Exception ''max() arg is an empty sequence'')
      | x # rest \<Rightarrow> Inr (max_from key x rest))"


section \<open>Data frames\<close>

text \<open>
  A cell as \<^verbatim>\<open>pd.read_csv\<close> delivers it: a number, a text, or the missing value.
  A number is a finite double, taken as the real it denotes; infinities are left out.
  A row gives a cell for every column name; the names that belong to the frame are
  listed in \<open>columns\<close>, which is what \<^verbatim>\<open>col in df.columns\<close> tests (also on a
  frame without rows).
\<close>

datatype cell = Num real | Str string | NaN

type_synonym row = "string \<Rightarrow> cell"

record frame =
  columns :: "string list"
  rows :: "row list"

text \<open>
  A calendar date, the value of a cell of the \<^verbatim>\<open>Date\<close> column after
  \<^verbatim>\<open>pd.to_datetime\<close>. A pandas timestamp lies between the years 1677 and 2262.
\<close>

record date =
  dyear :: nat
  dmonth :: nat
  dday :: nat

definition valid_date :: "date \<Rightarrow> bool" where
  "valid_date d =
     (1677 \<le> dyear d \<and> dyear d \<le> 2262 \<and> 1 \<le> dmonth d \<and> dmonth d \<le> 12 \<and>
      1 \<le> dday d \<and> dday d \<le> 31)"

text \<open>
  Arithmetic on doubles rounds its exact result, and so does the writing of a number with
  a fixed number of decimals. A rounding is any function that keeps the order of the reals
  and leaves 0 as it is; nothing else is assumed of it, so what is proved holds for
  round-to-nearest on doubles as for any other such function.
\<close>

typedef rounding = "{r :: real \<Rightarrow> real. (\<forall>x y. x \<le> y \<longrightarrow> r x \<le> r y) \<and> r 0 = 0}"
  morphisms rnd Abs_rounding
  by (rule exI[of _ "\<lambda>x. x"]) simp

setup_lifting type_definition_rounding

text \<open>
  What the handlers take from pandas and from the arithmetic of doubles, as parameters:
  \<open>parse_datetime\<close> is \<^verbatim>\<open>pd.to_datetime(..., dayfirst=True, errors='coerce')\<close> on one
  cell, with \<open>None\<close> for NaT; \<open>parse_numeric\<close> is
  \<^verbatim>\<open>pd.to_numeric(..., errors='coerce')\<close> on one text, with \<open>None\<close> for NaN;
  \<open>series_mean\<close> is \<^verbatim>\<open>Series.mean()\<close> of a numeric column, with \<open>None\<close> for NaN
  (which pandas gives for an empty Series); \<open>float64\<close> rounds an exact result to a
  double; \<open>json_float\<close> rounds a number to the decimals that
  \<^verbatim>\<open>to_json\<close> writes.
\<close>

record pandas =
  parse_datetime :: "cell \<Rightarrow> date option"
  parse_numeric :: "string \<Rightarrow> real option"
  series_mean :: "real list \<Rightarrow> real option"
  float64 :: rounding
  json_float :: rounding

subsection \<open>Date formatting\<close>

definition digit :: "nat \<Rightarrow> char" where
  "digit n = ''0123456789'' ! (n mod 10)"

definition pad2 :: "nat \<Rightarrow> string" where
  "pad2 n = [digit (n div 10), digit n]"

definition pad4 :: "nat \<Rightarrow> string" where
  "pad4 n = [digit (n div 1000), digit (n div 100), digit (n div 10), digit n]"

text \<open>\<^verbatim>\<open>strftime('%d-%m-%Y')\<close> and \<^verbatim>\<open>strftime('%Y-%m')\<close>.\<close>

definition strftime_dmY :: "date \<Rightarrow> string" where
  "strftime_dmY d = pad2 (dday d) @ ''-'' @ pad2 (dmonth d) @ ''-'' @ pad4 (dyear d)"

definition strftime_Ym :: "date \<Rightarrow> string" where
  "strftime_Ym d = pad4 (dyear d) @ ''-'' @ pad2 (dmonth d)"

subsection \<open>Date parsing and row dropping\<close>

text \<open>
  \<^verbatim>\<open>df['Date'] = pd.to_datetime(df['Date'], dayfirst=True, errors='coerce')\<close> followed
  by \<^verbatim>\<open>dropna(subset=['Date'])\<close>: a row whose date does not parse is dropped, the
  others carry their parsed date.
\<close>

type_synonym dated_row = "date \<times> row"

definition parse_dates :: "pandas \<Rightarrow> frame \<Rightarrow> dated_row list" where
  "parse_dates pd df =
     List.map_filter (\<lambda>r. map_option (\<lambda>d. (d, r)) (parse_datetime pd (r ''Date''))) (rows df)"

subsection \<open>Numeric coercion\<close>

definition to_numeric :: "pandas \<Rightarrow> cell \<Rightarrow> real option" where
  "to_numeric pd c =
     (case c of Num x \<Rightarrow> Some x | Str s \<Rightarrow> parse_numeric pd s | NaN \<Rightarrow> None)"

definition fillna :: "real \<Rightarrow> real option \<Rightarrow> real" where
  "fillna v x = (case x of None \<Rightarrow> v | Some y \<Rightarrow> y)"

definition fillna_cell :: "real \<Rightarrow> cell \<Rightarrow> cell" where
  "fillna_cell v c = (case c of NaN \<Rightarrow> Num v | _ \<Rightarrow> c)"


section \<open>The anomaly scan\<close>

definition BUCKET_NAME :: string where
  "BUCKET_NAME = ''electricity-meter-aggregated-readings''"

definition anomaly_S3_PREFIX :: string where
  "anomaly_S3_PREFIX = ''data/billing_agg_''"

definition SNS_TOPIC_ARN :: string where
  "SNS_TOPIC_ARN = ''arn:aws:sns:ap-south-1:487615743519:AnamolyDetection''"

definition sub_meter_cols :: "string list" where
  "sub_meter_cols = [''total_Sub_metering_1'', ''total_Sub_metering_2'', ''total_Sub_metering_3'']"

definition anomaly_billing_cols :: "string list" where
  "anomaly_billing_cols = [''total_daily_sum'', ''peak_charge'', ''offpeak_charge'', ''total_charge'']"

text \<open>
  The loop \<^verbatim>\<open>for col in sub_meter_cols + billing_cols\<close>: a column that is not in
  the frame is created with the constant 0, a column that is there goes through
  \<^verbatim>\<open>pd.to_numeric(df[col], errors='coerce').fillna(0)\<close>. After the loop these seven
  columns are numeric, so a record is its date with a number for each of them. The rules
  read no other column, and the value the model gives for another name stands for
  nothing in the program.
\<close>

definition numeric_cols :: "string list" where
  "numeric_cols = sub_meter_cols @ anomaly_billing_cols"

type_synonym meter_record = "date \<times> (string \<Rightarrow> real)"

definition coerce_value :: "pandas \<Rightarrow> string list \<Rightarrow> row \<Rightarrow> string \<Rightarrow> real" where
  "coerce_value pd present r col =
     (if col \<notin> set present then 0 else fillna 0 (to_numeric pd (r col)))"

definition anomaly_normalize :: "pandas \<Rightarrow> frame \<Rightarrow> meter_record list" where
  "anomaly_normalize pd df =
     map (\<lambda>dr. (fst dr, coerce_value pd (columns df) (snd dr))) (parse_dates pd df)"

text \<open>
  An alert stands for the formatted message of the source: the date string, and the
  numbers and the column name the message prints. A number that may be NaN is a
  \<open>real option\<close>, with \<open>None\<close> for NaN.
\<close>

datatype alert =
    High_consumption string real "real option"
  | Zero_consumption string
  | Sub_metering_spike string string real

text \<open>
  \<^verbatim>\<open>df['total_daily_sum'].mean() if not df['total_daily_sum'].empty else 0\<close>
\<close>

definition avg_daily :: "pandas \<Rightarrow> meter_record list \<Rightarrow> real option" where
  "avg_daily pd recs =
     (if recs = [] then Some 0
      else series_mean pd (map (\<lambda>rec. snd rec ''total_daily_sum'') recs))"

text \<open>The product of two doubles: the exact product, rounded.\<close>

definition float_mul :: "pandas \<Rightarrow> real \<Rightarrow> real \<Rightarrow> real" where
  "float_mul pd x y = rnd (float64 pd) (x * y)"

text \<open>
  \<^verbatim>\<open>avg_daily > 0 and row['total_daily_sum'] > 1.5 * avg_daily\<close>; a comparison with
  NaN is false.
\<close>

definition high_fires :: "pandas \<Rightarrow> real option \<Rightarrow> (string \<Rightarrow> real) \<Rightarrow> bool" where
  "high_fires pd avg v =
     (case avg of
        None \<Rightarrow> False
      | Some a \<Rightarrow> a > 0 \<and> v ''total_daily_sum'' > float_mul pd 1.5 a)"

definition zero_fires :: "(string \<Rightarrow> real) \<Rightarrow> bool" where
  "zero_fires v = (v ''total_daily_sum'' = 0)"

definition spike_fires :: "(string \<Rightarrow> real) \<Rightarrow> string \<Rightarrow> bool" where
  "spike_fires v col = (v col > 10000)"

text \<open>The body of the \<^verbatim>\<open>iterrows\<close> loop: what one record appends to \<^verbatim>\<open>alerts\<close>.\<close>

definition row_alerts :: "pandas \<Rightarrow> real option \<Rightarrow> meter_record \<Rightarrow> alert list" where
  "row_alerts pd avg rec =
     (let date_str = strftime_dmY (fst rec); v = snd rec in
        (if high_fires pd avg v
         then [High_consumption date_str (v ''total_daily_sum'') avg] else [])
      @ (if zero_fires v then [Zero_consumption date_str] else [])
      @ concat (map (\<lambda>col. if spike_fires v col
                            then [Sub_metering_spike date_str col (v col)] else [])
                    sub_meter_cols))"

definition detect :: "pandas \<Rightarrow> meter_record list \<Rightarrow> alert list" where
  "detect pd recs = concat (map (row_alerts pd (avg_daily pd recs)) recs)"

subsection \<open>The collaborators\<close>

text \<open>
  What the handlers reach through boto3 and pandas. \<open>list_objects_v2\<close> takes the bucket
  and the prefix and gives the \<^verbatim>\<open>Contents\<close> entry of the response, \<open>None\<close> when the
  response has no such key; \<open>read_csv\<close> is \<^verbatim>\<open>pd.read_csv(s3.get_object(...)['Body'])\<close>;
  \<open>publish\<close> takes topic, subject and message and gives the exception it raises, if any.
  Each call may raise (\<open>Inl\<close>).
\<close>

record world =
  list_objects_v2 :: "string \<Rightarrow> string \<Rightarrow> exn + s3_object list option"
  read_csv :: "string \<Rightarrow> string \<Rightarrow> exn + frame"
  publish :: "string \<Rightarrow> string \<Rightarrow> alert list \<Rightarrow> exn option"

text \<open>
  The listing of the store as boto3 reports it: the \<^verbatim>\<open>Contents\<close> key is in the
  response exactly when at least one object matches the prefix.
\<close>

definition s3_contents :: "s3_object list \<Rightarrow> s3_object list option" where
  "s3_contents objs = (if objs = [] then None else Some objs)"

subsection \<open>Responses\<close>

datatype json = JInt int | JNum real | JStr string | JNull

text \<open>
  A response body: a bare text, the \<^verbatim>\<open>json.dumps\<close> of a dict (its items in order), or
  the \<^verbatim>\<open>to_json(orient='records')\<close> of a frame (one dict per row).
\<close>

datatype body = Plain string | Object "(string \<times> json) list" | Array "(string \<times> json) list list"

record response =
  statusCode :: nat
  body :: body

text \<open>The keys of each record of a record-list body, in the order they are written.\<close>

definition record_keys :: "body \<Rightarrow> string list list" where
  "record_keys b = (case b of Array recs \<Rightarrow> map (map fst) recs | _ \<Rightarrow> [])"

text \<open>One call of \<^verbatim>\<open>sns.publish\<close>: topic, subject, message.\<close>

type_synonym sns_call = "string \<times> string \<times> alert list"

subsection \<open>The handler\<close>

text \<open>
  Step 1 of both handlers: list the objects under the prefix; \<open>Inr None\<close> is the branch
  \<^verbatim>\<open>'Contents' not in response\<close>, otherwise the key of
  \<^verbatim>\<open>max(response['Contents'], key=lambda x: x['LastModified'])\<close>.
\<close>

definition find_latest :: "world \<Rightarrow> string \<Rightarrow> exn + string option" where
  "find_latest w prefix =
     (case list_objects_v2 w BUCKET_NAME prefix of
        Inl e \<Rightarrow> Inl e
      | Inr None \<Rightarrow> Inr None
      | Inr (Some contents) \<Rightarrow>
          (case py_max LastModified contents of
             Inl e \<Rightarrow> Inl e
           | Inr latest \<Rightarrow> Inr (Some (Key latest))))"

text \<open>
  The subject of the notification, whose first six bytes are the UTF-8 encoding of the
  warning sign and its variation selector, and the success response. The message
  published is the alert list, which the source joins with newlines.
\<close>

definition anomaly_subject :: "string \<Rightarrow> string" where
  "anomaly_subject latest_file =
     [CHR 0xE2, CHR 0x9A, CHR 0xA0, CHR 0xEF, CHR 0xB8, CHR 0x8F] @
     '' Billing Anomalies Detected in '' @ latest_file"

definition anomaly_ok :: "string \<Rightarrow> nat \<Rightarrow> nat \<Rightarrow> response" where
  "anomaly_ok latest_file n_records n_alerts =
     \<lparr>statusCode = 200,
      body = Object [(''message'', JStr ''Processing complete.''),
                     (''file_processed'', JStr latest_file),
                     (''records_analyzed'', JInt (int n_records)),
                     (''alerts_found'', JInt (int n_alerts))]\<rparr>"

text \<open>
  The \<^verbatim>\<open>try\<close> block: the response it returns or the exception that leaves it, with the
  calls of \<^verbatim>\<open>sns.publish\<close> made on the way.
\<close>

definition anomaly_try :: "pandas \<Rightarrow> world \<Rightarrow> (exn + response) \<times> sns_call list" where
  "anomaly_try pd w =
     (case find_latest w anomaly_S3_PREFIX of
        Inl e \<Rightarrow> (Inl e, [])
      | Inr None \<Rightarrow>
          (Inr \<lparr>statusCode = 404, body = Plain ''No billing files found in S3''\<rparr>, [])
      | Inr (Some latest_file) \<Rightarrow>
          (case read_csv w BUCKET_NAME latest_file of
             Inl e \<Rightarrow> (Inl e, [])
           | Inr df \<Rightarrow>
               if ''Date'' \<notin> set (columns df)
               then (Inl (Exception ''CSV file is missing the required 'Date' column.''), [])
               else
                 let recs = anomaly_normalize pd df;
                     alerts = detect pd recs;
                     done = Inr (anomaly_ok latest_file (length recs) (length alerts));
                     call = (SNS_TOPIC_ARN, anomaly_subject latest_file, alerts)
                 in if alerts \<noteq> []
                    then (case publish w SNS_TOPIC_ARN (anomaly_subject latest_file) alerts of
                            Some e \<Rightarrow> (Inl e, [call])
                          | None \<Rightarrow> (done, [call]))
                    else (done, [])))"

text \<open>The \<^verbatim>\<open>except Exception as e\<close> clause turns any exception into a 500 response.\<close>

definition anomaly_lambda_handler :: "pandas \<Rightarrow> world \<Rightarrow> response \<times> sns_call list" where
  "anomaly_lambda_handler pd w =
     (case anomaly_try pd w of
        (Inl e, calls) \<Rightarrow>
          (\<lparr>statusCode = 500, body = Object [(''error'', JStr (str e))]\<rparr>, calls)
      | (Inr resp, calls) \<Rightarrow> (resp, calls))"


section \<open>The monthly query\<close>

definition billing_S3_PREFIX :: string where
  "billing_S3_PREFIX = ''data/billing_agg''"

definition billing_cols :: "string list" where
  "billing_cols =
     [''total_Sub_metering_1'', ''total_Sub_metering_2'', ''total_Sub_metering_3'',
      ''avg_submetering_value'', ''total_daily_sum'',
      ''peak_charge'', ''offpeak_charge'', ''total_charge'']"

text \<open>The event, with the one entry the handler reads.\<close>

record event =
  queryStringParameters :: "(string \<rightharpoonup> string) option"

text \<open>\<^verbatim>\<open>(event.get('queryStringParameters') or {}).get('month')\<close>\<close>

definition get_month :: "event \<Rightarrow> string option" where
  "get_month ev = (case queryStringParameters ev of None \<Rightarrow> None | Some q \<Rightarrow> q ''month'')"

text \<open>
  \<^verbatim>\<open>for col in billing_cols: if col not in df.columns: df[col] = 0\<close>, on one row,
  where \<open>present\<close> is \<^verbatim>\<open>df.columns\<close>.
\<close>

definition create_missing :: "string list \<Rightarrow> row \<Rightarrow> row" where
  "create_missing present r =
     (\<lambda>col. if col \<in> set billing_cols \<and> col \<notin> set present then Num 0 else r col)"

text \<open>\<^verbatim>\<open>df[billing_cols] = df[billing_cols].fillna(0)\<close>, on one row.\<close>

definition fillna_billing :: "row \<Rightarrow> row" where
  "fillna_billing r = (\<lambda>col. if col \<in> set billing_cols then fillna_cell 0 (r col) else r col)"

definition billing_normalize :: "string list \<Rightarrow> dated_row list \<Rightarrow> dated_row list" where
  "billing_normalize present drs =
     map (\<lambda>dr. (fst dr, fillna_billing (create_missing present (snd dr)))) drs"

text \<open>
  \<^verbatim>\<open>monthly_df[['Date'] + billing_cols]\<close> with the date formatted, as
  \<^verbatim>\<open>to_json(orient='records')\<close> writes one row.
\<close>

definition json_cell :: "pandas \<Rightarrow> cell \<Rightarrow> json" where
  "json_cell pd c =
     (case c of Num x \<Rightarrow> JNum (rnd (json_float pd) x) | Str s \<Rightarrow> JStr s | NaN \<Rightarrow> JNull)"

definition to_json_record :: "pandas \<Rightarrow> dated_row \<Rightarrow> (string \<times> json) list" where
  "to_json_record pd dr =
     (''Date'', JStr (strftime_dmY (fst dr))) #
     map (\<lambda>col. (col, json_cell pd (snd dr col))) billing_cols"

definition error_body :: "string \<Rightarrow> body" where
  "error_body msg = Object [(''error'', JStr msg)]"

definition billing_try :: "pandas \<Rightarrow> world \<Rightarrow> event \<Rightarrow> exn + response" where
  "billing_try pd w ev =
     (case get_month ev of
        None \<Rightarrow>
          Inr \<lparr>statusCode = 400,
               body = error_body ''Month parameter is required, e.g., ?month=2025-10''\<rparr>
      | Some month \<Rightarrow>
          if month = []
          then Inr \<lparr>statusCode = 400,
                    body = error_body ''Month parameter is required, e.g., ?month=2025-10''\<rparr>
          else
            (case find_latest w billing_S3_PREFIX of
               Inl e \<Rightarrow> Inl e
             | Inr None \<Rightarrow>
                 Inr \<lparr>statusCode = 404, body = error_body ''No billing files found in S3''\<rparr>
             | Inr (Some latest_file) \<Rightarrow>
                 (case read_csv w BUCKET_NAME latest_file of
                    Inl e \<Rightarrow> Inl e
                  | Inr df \<Rightarrow>
                      if ''Date'' \<notin> set (columns df)
                      then Inr \<lparr>statusCode = 500,
                                body = error_body ''CSV missing 'Date' column''\<rparr>
                      else
                        let drs = parse_dates pd df in
                        if drs = []
                        then Inr \<lparr>statusCode = 500,
                                  body = error_body ''No valid dates found in CSV''\<rparr>
                        else
                          let monthly_df =
                                filter (\<lambda>dr. strftime_Ym (fst dr) = month)
                                  (billing_normalize (columns df) drs)
                          in if monthly_df = []
                             then Inr \<lparr>statusCode = 404,
                                       body = error_body
                                         (''No billing data found for month '' @ month)\<rparr>
                             else Inr \<lparr>statusCode = 200,
                                       body = Array (map (to_json_record pd) monthly_df)\<rparr>)))"

definition billing_lambda_handler :: "pandas \<Rightarrow> world \<Rightarrow> event \<Rightarrow> response" where
  "billing_lambda_handler pd w ev =
     (case billing_try pd w ev of
        Inl e \<Rightarrow>
          \<lparr>statusCode = 500,
           body = Object [(''error'', JStr ''Internal server error''), (''details'', JStr (str e))]\<rparr>
      | Inr resp \<Rightarrow> resp)"


section \<open>Example inputs\<close>

text \<open>
  Concrete collaborators and data for evaluating the handlers: a row given by its listed
  cells, parsers that know a few texts, and a world with a fixed listing, a fixed
  result of reading the object and a fixed outcome of publishing.
\<close>

definition mk_row :: "(string \<times> cell) list \<Rightarrow> row" where
  "mk_row kvs = (\<lambda>col. case map_of kvs col of Some c \<Rightarrow> c | None \<Rightarrow> NaN)"

text \<open>The rounding that changes nothing, and the one that goes up to the next integer.\<close>

lift_definition exact :: rounding is "\<lambda>x. x"
  by simp


text \<open>The mean without rounding, NaN on the empty Series.\<close>

definition exact_mean :: "real list \<Rightarrow> real option" where
  "exact_mean xs = (if xs = [] then None else Some (sum_list xs / real (length xs)))"

definition example_pandas :: pandas where
  "example_pandas =
     \<lparr>parse_datetime =
        (\<lambda>c. case c of
               Str s \<Rightarrow>
                 map_of [(''01-10-2025'', \<lparr>dyear = 2025, dmonth = 10, dday = 1\<rparr>),
                         (''02-10-2025'', \<lparr>dyear = 2025, dmonth = 10, dday = 2\<rparr>),
                         (''30-09-2025'', \<lparr>dyear = 2025, dmonth = 9, dday = 30\<rparr>)] s
             | _ \<Rightarrow> None),
      parse_numeric = map_of [(''10'', 10), (''40'', 40), (''20000'', 20000)],
      series_mean = exact_mean,
      float64 = exact,
      json_float = exact\<rparr>"

definition example_world :: "s3_object list \<Rightarrow> exn + frame \<Rightarrow> exn option \<Rightarrow> world" where
  "example_world objs csv pub =
     \<lparr>list_objects_v2 = (\<lambda>bucket prefix. Inr (s3_contents objs)),
      read_csv = (\<lambda>bucket k. csv),
      publish = (\<lambda>topic subject message. pub)\<rparr>"


definition month_event :: "string \<Rightarrow> event" where
  "month_event m = \<lparr>queryStringParameters = Some [''month'' \<mapsto> m]\<rparr>"


definition obj :: "string \<Rightarrow> timestamp \<Rightarrow> s3_object" where
  "obj k t = \<lparr>Key = k, LastModified = t\<rparr>"

definition meter :: "(string \<times> real) list \<Rightarrow> string \<Rightarrow> real" where
  "meter kvs = (\<lambda>col. case map_of kvs col of Some x \<Rightarrow> x | None \<Rightarrow> 0)"

definition oct1 :: date where "oct1 = \<lparr>dyear = 2025, dmonth = 10, dday = 1\<rparr>"
definition oct2 :: date where "oct2 = \<lparr>dyear = 2025, dmonth = 10, dday = 2\<rparr>"

definition spiking :: "real \<Rightarrow> string \<Rightarrow> real" where
  "spiking s = meter [(''total_daily_sum'', s), (''total_Sub_metering_1'', 20000),
      (''total_Sub_metering_2'', 20000), (''total_Sub_metering_3'', 20000)]"


definition two_days_frame :: frame where
  "two_days_frame =
     \<lparr>columns = [''Date'', ''total_daily_sum''],
      rows = [mk_row [(''Date'', Str ''01-10-2025''), (''total_daily_sum'', Num 10)],
              mk_row [(''Date'', Str ''02-10-2025''), (''total_daily_sum'', Num 40)]]\<rparr>"

definition undated_frame :: frame where
  "undated_frame =
     \<lparr>columns = [''Date'', ''total_daily_sum''],
      rows = [mk_row [(''Date'', Str ''tomorrow''), (''total_daily_sum'', Num 10)],
              mk_row [(''total_daily_sum'', Num 40)]]\<rparr>"

definition no_date_frame :: frame where
  "no_date_frame =
     \<lparr>columns = [''total_daily_sum''],
      rows = [mk_row [(''total_daily_sum'', Num 10)]]\<rparr>"

definition text_cell_frame :: frame where
  "text_cell_frame =
     \<lparr>columns = [''Date'', ''total_daily_sum''],
      rows = [mk_row [(''Date'', Str ''01-10-2025''), (''total_daily_sum'', Str ''10'')],
              mk_row [(''Date'', Str ''02-10-2025''), (''total_daily_sum'', Str ''abc'')]]\<rparr>"

definition two_months_frame :: frame where
  "two_months_frame =
     \<lparr>columns = [''Date'', ''total_daily_sum'', ''avg_submetering_value''],
      rows = [mk_row [(''Date'', Str ''30-09-2025''), (''total_daily_sum'', Num 40),
                      (''avg_submetering_value'', Num 4)],
              mk_row [(''Date'', Str ''01-10-2025''), (''total_daily_sum'', Num 10)]]\<rparr>"

definition stored :: "frame \<Rightarrow> world" where
  "stored df = example_world [obj ''data/billing_agg_1.csv'' 1] (Inr df) None"

definition stored_sns_down :: "frame \<Rightarrow> world" where
  "stored_sns_down df =
     example_world [obj ''data/billing_agg_1.csv'' 1] (Inr df) (Some (Exception ''sns unavailable''))"

definition unreadable :: world where
  "unreadable = example_world [obj ''data/billing_agg_1.csv'' 1] (Inl (Exception ''read failed'')) None"

definition empty_store :: world where
  "empty_store = example_world [] (Inl (Exception ''no such key'')) None"

definition unlisted :: world where
  "unlisted =
     \<lparr>list_objects_v2 = (\<lambda>bucket prefix. Inl (Exception ''listing failed'')),
      read_csv = (\<lambda>bucket k. Inl (Exception ''read failed'')),
      publish = (\<lambda>topic subject message. None)\<rparr>"

definition october_query :: response where
  "october_query =
     billing_lambda_handler example_pandas (stored two_months_frame) (month_event ''2025-10'')"

text \<open>
  The column order of a serialized record as the specification words it (date, the three
  sub-metering fields, daily sum, peak, off-peak and total charge, then the average
  sub-metering value), in the column names of the source.
\<close>

definition claimed_column_order :: "string list" where
  "claimed_column_order =
     [''Date'', ''total_Sub_metering_1'', ''total_Sub_metering_2'', ''total_Sub_metering_3'',
      ''total_daily_sum'', ''peak_charge'', ''offpeak_charge'', ''total_charge'',
      ''avg_submetering_value'']"

section \<open>Evaluating the examples\<close>

lemmas world_defs = stored_def stored_sns_down_def unreadable_def empty_store_def
  example_world_def s3_contents_def obj_def find_latest_def py_max_def

lemmas frame_defs = two_days_frame_def undated_frame_def no_date_frame_def text_cell_frame_def
  two_months_frame_def mk_row_def

lemmas parse_defs = example_pandas_def parse_dates_def List.map_filter_def

lemmas date_defs = strftime_dmY_def strftime_Ym_def pad2_def pad4_def digit_def

lemmas anomaly_defs = anomaly_normalize_def coerce_value_def to_numeric_def fillna_def
  detect_def avg_daily_def exact_mean_def float_mul_def exact.rep_eq row_alerts_def Let_def
  high_fires_def zero_fires_def spike_fires_def sub_meter_cols_def

lemmas billing_defs = billing_normalize_def create_missing_def fillna_billing_def fillna_cell_def
  billing_cols_def to_json_record_def json_cell_def exact.rep_eq

lemma stored_latest:
  "find_latest (stored df) p = Inr (Some ''data/billing_agg_1.csv'')"
  "find_latest (stored_sns_down df) p = Inr (Some ''data/billing_agg_1.csv'')"
  "find_latest unreadable p = Inr (Some ''data/billing_agg_1.csv'')"
  "find_latest empty_store p = Inr None"
  by (simp_all add: world_defs)

lemma stored_read:
  "read_csv (stored df) b k = Inr df"
  "read_csv (stored_sns_down df) b k = Inr df"
  "read_csv unreadable b k = Inl (Exception ''read failed'')"
  by (simp_all add: world_defs)

lemma stored_publish:
  "publish (stored df) t s a = None"
  "publish (stored_sns_down df) t s a = Some (Exception ''sns unavailable'')"
  by (simp_all add: world_defs)

lemma month_event_month: "get_month (month_event m) = Some m"
  by (simp add: get_month_def month_event_def)

lemma two_days_alerts:
  "detect example_pandas (anomaly_normalize example_pandas two_days_frame) = [High_consumption ''02-10-2025'' 40 (Some 25)]"
  by (simp add: anomaly_defs parse_defs frame_defs date_defs)

lemma two_days_length: "length (anomaly_normalize example_pandas two_days_frame) = 2"
  by (simp add: anomaly_normalize_def parse_defs frame_defs)

lemma undated_dates: "parse_dates example_pandas undated_frame = []"
  by (simp add: parse_defs frame_defs)

lemma date_in_columns:
  "''Date'' \<in> set (columns two_days_frame)" "''Date'' \<in> set (columns undated_frame)"
  "''Date'' \<in> set (columns two_months_frame)" "''Date'' \<in> set (columns text_cell_frame)"
  "''Date'' \<notin> set (columns no_date_frame)"
  by (simp_all add: frame_defs)

lemma two_months_selected:
  "map fst (filter (\<lambda>dr. strftime_Ym (fst dr) = ''2025-10'') (parse_dates example_pandas two_months_frame))
     = [oct1]"
  by (simp add: parse_defs frame_defs date_defs oct1_def)

lemma october_query_value:
  "october_query =
     \<lparr>statusCode = 200,
      body = Array
       [[(''Date'', JStr ''01-10-2025''),
         (''total_Sub_metering_1'', JNum 0),
         (''total_Sub_metering_2'', JNum 0),
         (''total_Sub_metering_3'', JNum 0),
         (''avg_submetering_value'', JNum 0),
         (''total_daily_sum'', JNum 10), (''peak_charge'', JNum 0),
         (''offpeak_charge'', JNum 0), (''total_charge'', JNum 0)]]\<rparr>"
  by (simp add: october_query_def billing_lambda_handler_def billing_try_def month_event_month
      stored_latest stored_read date_in_columns Let_def parse_defs frame_defs date_defs billing_defs)

section \<open>Snapshot selection\<close>

lemma max_from_shape:
  "max_from key b xs = b \<and> (\<forall>x\<in>set xs. key x \<le> key b) \<or>
   (\<exists>ys zs. xs = ys @ max_from key b xs # zs \<and> key b < key (max_from key b xs) \<and>
      (\<forall>y\<in>set ys. key y < key (max_from key b xs)) \<and>
      (\<forall>z\<in>set zs. key z \<le> key (max_from key b xs)))"
proof (induction xs arbitrary: b)
  case Nil
  then show ?case by simp
next
  case (Cons x xs)
  show ?case
  proof (cases "key b < key x")
    case True
    from Cons.IH[of x] show ?thesis
    proof
      assume h: "max_from key x xs = x \<and> (\<forall>y\<in>set xs. key y \<le> key x)"
      have "x # xs = [] @ max_from key b (x # xs) # xs" using True h by simp
      then show ?thesis using True h by (intro disjI2 exI[of _ "[]"] exI[of _ xs]) auto
    next
      assume "\<exists>ys zs. xs = ys @ max_from key x xs # zs \<and> key x < key (max_from key x xs) \<and>
        (\<forall>y\<in>set ys. key y < key (max_from key x xs)) \<and> (\<forall>z\<in>set zs. key z \<le> key (max_from key x xs))"
      then obtain ys zs where h: "xs = ys @ max_from key x xs # zs" "key x < key (max_from key x xs)"
        "\<forall>y\<in>set ys. key y < key (max_from key x xs)" "\<forall>z\<in>set zs. key z \<le> key (max_from key x xs)" by blast
      have "x # xs = (x # ys) @ max_from key b (x # xs) # zs" using True h(1) by simp
      then show ?thesis using True h by (intro disjI2 exI[of _ "x # ys"] exI[of _ zs]) auto
    qed
  next
    case False
    from Cons.IH[of b] show ?thesis
    proof
      assume "max_from key b xs = b \<and> (\<forall>y\<in>set xs. key y \<le> key b)"
      then show ?thesis using False by auto
    next
      assume "\<exists>ys zs. xs = ys @ max_from key b xs # zs \<and> key b < key (max_from key b xs) \<and>
        (\<forall>y\<in>set ys. key y < key (max_from key b xs)) \<and> (\<forall>z\<in>set zs. key z \<le> key (max_from key b xs))"
      then obtain ys zs where h: "xs = ys @ max_from key b xs # zs" "key b < key (max_from key b xs)"
        "\<forall>y\<in>set ys. key y < key (max_from key b xs)" "\<forall>z\<in>set zs. key z \<le> key (max_from key b xs)" by blast
      have "x # xs = (x # ys) @ max_from key b (x # xs) # zs" using False h(1) by simp
      then show ?thesis using False h by (intro disjI2 exI[of _ "x # ys"] exI[of _ zs]) auto
    qed
  qed
qed

text \<open>first maximal element of a non-empty list\<close>
lemma max_from_first_max:
  "\<exists>ys zs. b # xs = ys @ max_from key b xs # zs \<and>
      (\<forall>y\<in>set ys. key y < key (max_from key b xs)) \<and>
      (\<forall>z\<in>set zs. key z \<le> key (max_from key b xs))"
  using max_from_shape[of key b xs]
proof
  assume "max_from key b xs = b \<and> (\<forall>x\<in>set xs. key x \<le> key b)"
  then show ?thesis by (intro exI[of _ "[]"] exI[of _ xs]) auto
next
  assume "\<exists>ys zs. xs = ys @ max_from key b xs # zs \<and> key b < key (max_from key b xs) \<and>
      (\<forall>y\<in>set ys. key y < key (max_from key b xs)) \<and>
      (\<forall>z\<in>set zs. key z \<le> key (max_from key b xs))"
  then obtain ys zs where h: "xs = ys @ max_from key b xs # zs" "key b < key (max_from key b xs)"
        "\<forall>y\<in>set ys. key y < key (max_from key b xs)" "\<forall>z\<in>set zs. key z \<le> key (max_from key b xs)" by blast
  have "b # xs = (b # ys) @ max_from key b xs # zs" using h(1) by simp
  then show ?thesis using h by (intro exI[of _ "b # ys"] exI[of _ zs]) auto
qed


lemma find_latest_first_max:
  assumes "list_objects_v2 w BUCKET_NAME prefix = Inr (Some objs)" and "objs \<noteq> []"
  shows "\<exists>ys s zs. objs = ys @ s # zs \<and> find_latest w prefix = Inr (Some (Key s)) \<and>
           (\<forall>y\<in>set ys. LastModified y < LastModified s) \<and>
           (\<forall>z\<in>set zs. LastModified z \<le> LastModified s)"
proof -
  from assms(2) obtain b xs where objs: "objs = b # xs" by (cases objs) auto
  let ?s = "max_from LastModified b xs"
  from max_from_first_max[of b xs LastModified] obtain ys zs where
    h: "b # xs = ys @ ?s # zs" "\<forall>y\<in>set ys. LastModified y < LastModified ?s"
       "\<forall>z\<in>set zs. LastModified z \<le> LastModified ?s" by blast
  have "find_latest w prefix = Inr (Some (Key ?s))"
    using assms(1) objs by (simp add: find_latest_def py_max_def)
  with h objs show ?thesis by blast
qed

text \<open>
  A \<^verbatim>\<open>Contents\<close> entry that is present and empty, which the store does not send,
  would make \<^verbatim>\<open>max\<close> raise and the handlers answer with status 500.
\<close>

lemma find_latest_empty_contents:
  "list_objects_v2 w BUCKET_NAME prefix = Inr (Some []) \<Longrightarrow>
     find_latest w prefix = Inl (Exception ''max() arg is an empty sequence'')"
  by (simp add: find_latest_def py_max_def)

text \<open>
  C4. The store reports the objects \<open>objs\<close> under the prefix. If there is at least one,
  step 1 of either handler yields the key of an object of the listing whose
  \<open>LastModified\<close> is maximal over the listing. If there is none, nothing is selected and
  the handler answers with status 404 (the query handler once it has its month).
\<close>

theorem snapshot_selector_latest:
  assumes "list_objects_v2 w BUCKET_NAME anomaly_S3_PREFIX = Inr (s3_contents objs)"
    and "list_objects_v2 w BUCKET_NAME billing_S3_PREFIX = Inr (s3_contents objs')"
  shows "(objs \<noteq> [] \<longrightarrow>
            (\<exists>s\<in>set objs. find_latest w anomaly_S3_PREFIX = Inr (Some (Key s)) \<and>
               (\<forall>t\<in>set objs. LastModified t \<le> LastModified s))) \<and>
         (objs' \<noteq> [] \<longrightarrow>
            (\<exists>s\<in>set objs'. find_latest w billing_S3_PREFIX = Inr (Some (Key s)) \<and>
               (\<forall>t\<in>set objs'. LastModified t \<le> LastModified s))) \<and>
         (objs = [] \<longrightarrow>
            find_latest w anomaly_S3_PREFIX = Inr None \<and>
            anomaly_lambda_handler pd w =
              (\<lparr>statusCode = 404, body = Plain ''No billing files found in S3''\<rparr>, [])) \<and>
         (objs' = [] \<longrightarrow>
            find_latest w billing_S3_PREFIX = Inr None \<and>
            (get_month ev = Some m \<and> m \<noteq> [] \<longrightarrow>
               billing_lambda_handler pd w ev =
                 \<lparr>statusCode = 404, body = error_body ''No billing files found in S3''\<rparr>))"
proof -
  have max: "\<exists>s\<in>set xs. find_latest w p = Inr (Some (Key s)) \<and>
               (\<forall>t\<in>set xs. LastModified t \<le> LastModified s)"
    if l: "list_objects_v2 w BUCKET_NAME p = Inr (s3_contents xs)" and ne: "xs \<noteq> []" for p xs
  proof -
    from l ne have "list_objects_v2 w BUCKET_NAME p = Inr (Some xs)" by (simp add: s3_contents_def)
    from find_latest_first_max[OF this ne] obtain ys s zs where
      h: "xs = ys @ s # zs" "find_latest w p = Inr (Some (Key s))"
         "\<forall>y\<in>set ys. LastModified y < LastModified s" "\<forall>z\<in>set zs. LastModified z \<le> LastModified s"
      by blast
    have "s \<in> set xs" using h(1) by simp
    moreover have "\<forall>t\<in>set xs. LastModified t \<le> LastModified s"
      using h(1,3,4) by (auto simp: less_imp_le)
    ultimately show ?thesis using h(2) by blast
  qed
  have none: "find_latest w p = Inr None"
    if "list_objects_v2 w BUCKET_NAME p = Inr (s3_contents [])" for p
    using that by (simp add: find_latest_def s3_contents_def)
  have a: "objs = [] \<longrightarrow> find_latest w anomaly_S3_PREFIX = Inr None \<and>
            anomaly_lambda_handler pd w =
              (\<lparr>statusCode = 404, body = Plain ''No billing files found in S3''\<rparr>, [])"
    using none[of anomaly_S3_PREFIX] assms(1)
    by (simp add: anomaly_lambda_handler_def anomaly_try_def)
  have b: "objs' = [] \<longrightarrow> find_latest w billing_S3_PREFIX = Inr None \<and>
            (get_month ev = Some m \<and> m \<noteq> [] \<longrightarrow>
               billing_lambda_handler pd w ev =
                 \<lparr>statusCode = 404, body = error_body ''No billing files found in S3''\<rparr>)"
    using none[of billing_S3_PREFIX] assms(2)
    by (simp add: billing_lambda_handler_def billing_try_def)
  show ?thesis using max[OF assms(1)] max[OF assms(2)] a b by blast
qed

theorem snapshot_selector_latest_witness:
  "find_latest (example_world [obj ''a'' 3, obj ''b'' 7, obj ''c'' 5] (Inl (Exception ''unused'')) None)
     anomaly_S3_PREFIX = Inr (Some ''b'') \<and>
   anomaly_lambda_handler example_pandas empty_store =
     (\<lparr>statusCode = 404, body = Plain ''No billing files found in S3''\<rparr>, []) \<and>
   billing_lambda_handler example_pandas empty_store (month_event ''2025-10'') =
     \<lparr>statusCode = 404, body = error_body ''No billing files found in S3''\<rparr>"
proof -
  let ?objs = "[obj ''a'' 3, obj ''b'' 7, obj ''c'' 5]"
  let ?w = "example_world ?objs (Inl (Exception ''unused'')) None"
  have m: "get_month (month_event ''2025-10'') = Some ''2025-10''" "''2025-10'' \<noteq> []"
    by (simp_all add: month_event_month)
  have l: "list_objects_v2 ?w BUCKET_NAME p = Inr (s3_contents ?objs)"
    "list_objects_v2 empty_store BUCKET_NAME p = Inr (s3_contents [])" for p
    by (simp_all add: example_world_def empty_store_def)
  from snapshot_selector_latest[OF l(1) l(1)]
  have 1: "find_latest ?w anomaly_S3_PREFIX = Inr (Some ''b'')"
    by (auto simp: obj_def)
  from snapshot_selector_latest[OF l(2) l(2), of example_pandas "month_event ''2025-10''" "''2025-10''"] m
  have 2: "anomaly_lambda_handler example_pandas empty_store =
       (\<lparr>statusCode = 404, body = Plain ''No billing files found in S3''\<rparr>, [])"
    "billing_lambda_handler example_pandas empty_store (month_event ''2025-10'') =
       \<lparr>statusCode = 404, body = error_body ''No billing files found in S3''\<rparr>"
    by simp_all
  from 1 2 show ?thesis by simp
qed

text \<open>
  C10. Among the objects that share the maximal \<open>LastModified\<close>, the one selected is the
  first of the listing: every object before it is strictly older, every object after it
  is at most as recent. The keys play no part, and the selection is a function of the
  listing alone.
\<close>

theorem snapshot_selector_first_max:
  assumes "list_objects_v2 w BUCKET_NAME prefix = Inr (Some objs)" and "objs \<noteq> []"
  shows "(\<exists>ys s zs. objs = ys @ s # zs \<and> find_latest w prefix = Inr (Some (Key s)) \<and>
            (\<forall>y\<in>set ys. LastModified y < LastModified s) \<and>
            (\<forall>z\<in>set zs. LastModified z \<le> LastModified s)) \<and>
         (list_objects_v2 w' BUCKET_NAME prefix' = Inr (Some objs) \<longrightarrow>
            find_latest w' prefix' = find_latest w prefix)"
  using find_latest_first_max[OF assms] assms(1) by (simp add: find_latest_def)

theorem snapshot_selector_first_max_witness:
  "(\<exists>ys s zs. [obj ''b'' 5, obj ''a'' 5, obj ''c'' 2] = ys @ s # zs \<and>
      find_latest (example_world [obj ''b'' 5, obj ''a'' 5, obj ''c'' 2] (Inl (Exception ''unused'')) None)
        billing_S3_PREFIX = Inr (Some (Key s)) \<and>
      (\<forall>y\<in>set ys. LastModified y < LastModified s) \<and>
      (\<forall>z\<in>set zs. LastModified z \<le> LastModified s)) \<and>
   find_latest (example_world [obj ''b'' 5, obj ''a'' 5, obj ''c'' 2] (Inl (Exception ''unused'')) None)
     billing_S3_PREFIX = Inr (Some ''b'') \<and>
   find_latest (example_world [obj ''a'' 5, obj ''b'' 5, obj ''c'' 2] (Inl (Exception ''unused'')) None)
     billing_S3_PREFIX = Inr (Some ''a'')"
proof -
  let ?objs = "[obj ''b'' 5, obj ''a'' 5, obj ''c'' 2]"
  let ?w = "example_world ?objs (Inl (Exception ''unused'')) None"
  have l: "list_objects_v2 ?w BUCKET_NAME billing_S3_PREFIX = Inr (Some ?objs)"
    by (simp add: example_world_def s3_contents_def)
  have ne: "?objs \<noteq> []" by simp
  have 1: "find_latest ?w billing_S3_PREFIX = Inr (Some ''b'')"
    by (simp add: find_latest_def example_world_def s3_contents_def py_max_def obj_def)
  have 2: "find_latest (example_world [obj ''a'' 5, obj ''b'' 5, obj ''c'' 2]
             (Inl (Exception ''unused'')) None) billing_S3_PREFIX = Inr (Some ''a'')"
    by (simp add: find_latest_def example_world_def s3_contents_def py_max_def obj_def)
  show ?thesis
    using snapshot_selector_first_max[OF l ne, of ?w billing_S3_PREFIX] 1 2 by simp
qed

section \<open>The anomaly rules\<close>

lemma rnd_mono: "x \<le> y \<Longrightarrow> rnd r x \<le> rnd r y"
  using rnd[of r] by simp

lemma rnd_zero: "rnd r 0 = 0"
  using rnd[of r] by simp

lemma row_alerts_length:
  "length (row_alerts pd avg rec) =
     (if high_fires pd avg (snd rec) then 1 else 0) + (if zero_fires (snd rec) then 1 else 0) +
     length (filter (spike_fires (snd rec)) sub_meter_cols)"
  by (simp add: row_alerts_def Let_def sub_meter_cols_def)

text \<open>
  The rounded product of 1.5 and a positive average is not negative, so a daily sum of 0
  is not above it.
\<close>

lemma high_zero_exclusive: "\<not> (high_fires pd avg v \<and> zero_fires v)"
proof
  assume h: "high_fires pd avg v \<and> zero_fires v"
  then obtain a where a: "avg = Some a" "a > 0" "v ''total_daily_sum'' > float_mul pd 1.5 a"
    by (auto simp: high_fires_def split: option.splits)
  have "(0::real) \<le> 1.5 * a" using a(2) by simp
  from rnd_mono[OF this, of "float64 pd"] have "0 \<le> float_mul pd 1.5 a"
    by (simp add: float_mul_def rnd_zero)
  with a(3) h show False by (simp add: zero_fires_def)
qed

lemma spikes_at_most_three: "length (filter (spike_fires v) sub_meter_cols) \<le> 3"
  using length_filter_le[of "spike_fires v" sub_meter_cols] by (simp add: sub_meter_cols_def)

text \<open>
  C2, as the code has it. The three rules are evaluated one after the other for every
  record and each appends its alerts whatever the others did: the number of alerts of a
  record is the number of rules that fire, counting the spike rule once per sub-metering
  column. The high-consumption and the zero-consumption conditions exclude each other
  (a daily sum of 0 is not above 1.5 times a positive average, however the product is
  rounded), so a record gives at most 4 alerts.
\<close>

theorem row_alerts_at_most_four:
  "length (row_alerts pd avg rec) =
     (if high_fires pd avg (snd rec) then 1 else 0) + (if zero_fires (snd rec) then 1 else 0) +
     length (filter (spike_fires (snd rec)) sub_meter_cols)
   \<and> \<not> (high_fires pd avg (snd rec) \<and> zero_fires (snd rec))
   \<and> length (row_alerts pd avg rec) \<le> 4"
  using row_alerts_length[of pd avg rec] high_zero_exclusive[of pd avg "snd rec"]
    spikes_at_most_three[of "snd rec"]
  by (auto split: if_splits)

text \<open>
  C2 as stated fails: for no average and no record do the high-consumption and the
  zero-consumption rule both fire, and no record gives 5 alerts.
\<close>

theorem all_rules_fire_counterexample:
  "\<not> (\<exists>pd avg rec. high_fires pd avg (snd rec) \<and> zero_fires (snd rec)) \<and>
   \<not> (\<exists>pd avg rec. length (row_alerts pd avg rec) = 5)"
proof -
  have "length (row_alerts pd avg rec) \<noteq> 5" for pd avg rec
    using row_alerts_length[of pd avg rec] high_zero_exclusive[of pd avg "snd rec"]
      spikes_at_most_three[of "snd rec"]
    by (auto split: if_splits)
  then show ?thesis using high_zero_exclusive by blast
qed

theorem row_alerts_at_most_four_witness:
  "row_alerts example_pandas (Some 10) (oct1, spiking 100) =
     [High_consumption ''01-10-2025'' 100 (Some 10),
      Sub_metering_spike ''01-10-2025'' ''total_Sub_metering_1'' 20000,
      Sub_metering_spike ''01-10-2025'' ''total_Sub_metering_2'' 20000,
      Sub_metering_spike ''01-10-2025'' ''total_Sub_metering_3'' 20000]
   \<and> length (row_alerts example_pandas (Some 10) (oct1, spiking 100)) \<le> 4
   \<and> row_alerts example_pandas (Some 10) (oct1, spiking 0) =
     [Zero_consumption ''01-10-2025'',
      Sub_metering_spike ''01-10-2025'' ''total_Sub_metering_1'' 20000,
      Sub_metering_spike ''01-10-2025'' ''total_Sub_metering_2'' 20000,
      Sub_metering_spike ''01-10-2025'' ''total_Sub_metering_3'' 20000]
   \<and> length (row_alerts example_pandas (Some 10) (oct1, spiking 0)) \<le> 4"
proof -
  have 1: "row_alerts example_pandas (Some 10) (oct1, spiking 100) =
     [High_consumption ''01-10-2025'' 100 (Some 10),
      Sub_metering_spike ''01-10-2025'' ''total_Sub_metering_1'' 20000,
      Sub_metering_spike ''01-10-2025'' ''total_Sub_metering_2'' 20000,
      Sub_metering_spike ''01-10-2025'' ''total_Sub_metering_3'' 20000]"
    by (simp add: row_alerts_def Let_def high_fires_def zero_fires_def spike_fires_def
        sub_meter_cols_def float_mul_def example_pandas_def exact.rep_eq
        spiking_def meter_def oct1_def date_defs)
  have 2: "row_alerts example_pandas (Some 10) (oct1, spiking 0) =
     [Zero_consumption ''01-10-2025'',
      Sub_metering_spike ''01-10-2025'' ''total_Sub_metering_1'' 20000,
      Sub_metering_spike ''01-10-2025'' ''total_Sub_metering_2'' 20000,
      Sub_metering_spike ''01-10-2025'' ''total_Sub_metering_3'' 20000]"
    by (simp add: row_alerts_def Let_def high_fires_def zero_fires_def spike_fires_def
        sub_meter_cols_def float_mul_def example_pandas_def exact.rep_eq
        spiking_def meter_def oct1_def date_defs)
  show ?thesis
    using row_alerts_at_most_four[of example_pandas "Some 10" "(oct1, spiking 100)"]
      row_alerts_at_most_four[of example_pandas "Some 10" "(oct1, spiking 0)"] 1 2 by simp
qed



section \<open>Numeric coercion on the two paths\<close>

lemma parse_dates_empty_iff:
  "parse_dates pd df = [] \<longleftrightarrow> (\<forall>r\<in>set (rows df). parse_datetime pd (r ''Date'') = None)"
  by (auto simp: parse_dates_def List.map_filter_def filter_empty_conv)

text \<open>Every column the rules read is one of the seven the loop makes numeric.\<close>

lemma rules_read_numeric_cols:
  "set (''total_daily_sum'' # sub_meter_cols) \<subseteq> set numeric_cols"
  by (simp add: numeric_cols_def sub_meter_cols_def anomaly_billing_cols_def)

text \<open>
  On the anomaly path a cell of a column of the frame that does not parse as a number
  becomes 0, and coercion drops no row: the records are the rows with a valid date, in
  order.
\<close>

lemma anomaly_coerces_unparsable:
  "col \<in> set (columns df) \<Longrightarrow> to_numeric pd (r col) = None \<Longrightarrow>
     coerce_value pd (columns df) r col = 0"
  by (simp add: coerce_value_def fillna_def)

lemma anomaly_normalize_keeps_rows:
  "map fst (anomaly_normalize pd df) = map fst (parse_dates pd df)"
  by (simp add: anomaly_normalize_def)

text \<open>
  C1. A cell of a numeric column that does not parse as a number is to become 0, with its
  row kept, on both paths. The anomaly path does so (the two lemmas above). The query
  path does not: here the frame has a \<^verbatim>\<open>total_daily_sum\<close> column with the texts
  \<^verbatim>\<open>10\<close> and \<^verbatim>\<open>abc\<close>, of which the second does not parse; the anomaly path
  makes it 0, the query path only fills missing cells, keeps the row and serializes the
  text as it is.
\<close>

theorem query_keeps_unparsable_text:
  "to_numeric example_pandas (Str ''abc'') = None \<and>
   map (\<lambda>rec. snd rec ''total_daily_sum'') (anomaly_normalize example_pandas text_cell_frame) =
     [10, 0] \<and>
   billing_lambda_handler example_pandas (stored text_cell_frame) (month_event ''2025-10'') =
     \<lparr>statusCode = 200,
      body = Array
       [[(''Date'', JStr ''01-10-2025''),
         (''total_Sub_metering_1'', JNum 0),
         (''total_Sub_metering_2'', JNum 0),
         (''total_Sub_metering_3'', JNum 0),
         (''avg_submetering_value'', JNum 0),
         (''total_daily_sum'', JStr ''10''), (''peak_charge'', JNum 0),
         (''offpeak_charge'', JNum 0), (''total_charge'', JNum 0)],
        [(''Date'', JStr ''02-10-2025''),
         (''total_Sub_metering_1'', JNum 0),
         (''total_Sub_metering_2'', JNum 0),
         (''total_Sub_metering_3'', JNum 0),
         (''avg_submetering_value'', JNum 0),
         (''total_daily_sum'', JStr ''abc''), (''peak_charge'', JNum 0),
         (''offpeak_charge'', JNum 0), (''total_charge'', JNum 0)]]\<rparr>"
  by (simp add: billing_lambda_handler_def billing_try_def month_event_month
      stored_latest stored_read date_in_columns Let_def parse_defs frame_defs date_defs billing_defs
      anomaly_normalize_def coerce_value_def to_numeric_def fillna_def)

section \<open>Detection and dispatch\<close>

lemma avg_daily_Nil: "avg_daily pd [] = Some 0"
  by (simp add: avg_daily_def)

lemma detect_Nil: "detect pd [] = []"
  by (simp add: detect_def)

lemma anomaly_handler_run:
  assumes "find_latest w anomaly_S3_PREFIX = Inr (Some k)"
    and "read_csv w BUCKET_NAME k = Inr df"
    and "''Date'' \<in> set (columns df)"
  shows "anomaly_lambda_handler pd w =
     (let recs = anomaly_normalize pd df; alerts = detect pd recs;
          call = (SNS_TOPIC_ARN, anomaly_subject k, alerts)
      in if alerts = [] then (anomaly_ok k (length recs) 0, [])
         else (case publish w SNS_TOPIC_ARN (anomaly_subject k) alerts of
                 Some e \<Rightarrow> (\<lparr>statusCode = 500, body = Object [(''error'', JStr (str e))]\<rparr>, [call])
               | None \<Rightarrow> (anomaly_ok k (length recs) (length alerts), [call])))"
  using assms
  by (simp add: anomaly_lambda_handler_def anomaly_try_def Let_def split: option.splits)

text \<open>
  C3, as the code has it. \<^verbatim>\<open>sns.publish\<close> is called inside the \<^verbatim>\<open>try\<close> block. When
  the scan found alerts and the call raises, the handler answers with status 500 and the
  exception's message, and the detection result is not reported; when the call returns,
  the handler reports the records analyzed and the alerts found. Either way the call was
  made once.
\<close>

theorem dispatch_failure_gives_error_response:
  assumes "find_latest w anomaly_S3_PREFIX = Inr (Some k)"
    and "read_csv w BUCKET_NAME k = Inr df"
    and "''Date'' \<in> set (columns df)"
    and "detect pd (anomaly_normalize pd df) \<noteq> []"
  shows "(publish w SNS_TOPIC_ARN (anomaly_subject k) (detect pd (anomaly_normalize pd df)) = Some e \<longrightarrow>
            anomaly_lambda_handler pd w =
              (\<lparr>statusCode = 500, body = Object [(''error'', JStr (str e))]\<rparr>,
               [(SNS_TOPIC_ARN, anomaly_subject k, detect pd (anomaly_normalize pd df))])) \<and>
         (publish w SNS_TOPIC_ARN (anomaly_subject k) (detect pd (anomaly_normalize pd df)) = None \<longrightarrow>
            anomaly_lambda_handler pd w =
              (anomaly_ok k (length (anomaly_normalize pd df))
                 (length (detect pd (anomaly_normalize pd df))),
               [(SNS_TOPIC_ARN, anomaly_subject k, detect pd (anomaly_normalize pd df))]))"
  using assms(4) by (simp add: anomaly_handler_run[OF assms(1-3)] Let_def)

theorem dispatch_failure_gives_error_response_witness:
  "anomaly_lambda_handler example_pandas (stored_sns_down two_days_frame) =
     (\<lparr>statusCode = 500, body = Object [(''error'', JStr ''sns unavailable'')]\<rparr>,
      [(SNS_TOPIC_ARN, anomaly_subject ''data/billing_agg_1.csv'',
        [High_consumption ''02-10-2025'' 40 (Some 25)])]) \<and>
   anomaly_lambda_handler example_pandas (stored two_days_frame) =
     (anomaly_ok ''data/billing_agg_1.csv'' 2 1,
      [(SNS_TOPIC_ARN, anomaly_subject ''data/billing_agg_1.csv'',
        [High_consumption ''02-10-2025'' 40 (Some 25)])])"
proof -
  have ne: "detect example_pandas (anomaly_normalize example_pandas two_days_frame) \<noteq> []"
    by (simp add: two_days_alerts)
  show ?thesis
    using dispatch_failure_gives_error_response[OF stored_latest(2) stored_read(2) date_in_columns(1) ne,
        of "Exception ''sns unavailable''"]
      dispatch_failure_gives_error_response[OF stored_latest(1) stored_read(1) date_in_columns(1) ne,
        of "Exception ''sns unavailable''"]
    by (simp add: stored_publish two_days_alerts two_days_length)
qed

text \<open>
  C3 as stated fails: the scan of the two-day frame finds one alert, publishing raises,
  and the response is the error response.
\<close>

theorem dispatch_failure_counterexample:
  "detect example_pandas (anomaly_normalize example_pandas two_days_frame) = [High_consumption ''02-10-2025'' 40 (Some 25)] \<and>
   fst (anomaly_lambda_handler example_pandas (stored_sns_down two_days_frame)) =
     \<lparr>statusCode = 500, body = Object [(''error'', JStr ''sns unavailable'')]\<rparr>"
  by (simp add: two_days_alerts anomaly_lambda_handler_def anomaly_try_def stored_latest stored_read
      stored_publish date_in_columns Let_def)

text \<open>
  C6. When the normalized dataset is empty, the mean of the empty column is not taken:
  whatever \<^verbatim>\<open>Series.mean\<close> gives for it (pandas gives NaN, the result of 0/0), the
  average is the number 0. The high-consumption rule then fires for no record, there is
  no alert, \<^verbatim>\<open>sns.publish\<close> is not called, and the response is the success response
  with 0 records analyzed and 0 alerts found.
\<close>

theorem empty_dataset_anomaly:
  assumes "find_latest w anomaly_S3_PREFIX = Inr (Some k)"
    and "read_csv w BUCKET_NAME k = Inr df"
    and "''Date'' \<in> set (columns df)"
    and "anomaly_normalize pd df = []"
  shows "avg_daily pd (anomaly_normalize pd df) = Some 0 \<and>
         \<not> high_fires pd (avg_daily pd (anomaly_normalize pd df)) v \<and>
         detect pd (anomaly_normalize pd df) = [] \<and>
         anomaly_lambda_handler pd w =
           (\<lparr>statusCode = 200,
             body = Object [(''message'', JStr ''Processing complete.''),
                            (''file_processed'', JStr k),
                            (''records_analyzed'', JInt 0),
                            (''alerts_found'', JInt 0)]\<rparr>, [])"
  using assms(4)
  by (simp add: anomaly_handler_run[OF assms(1-3)] avg_daily_Nil detect_Nil high_fires_def
      anomaly_ok_def)

theorem empty_dataset_anomaly_witness:
  "anomaly_normalize example_pandas undated_frame = [] \<and>
   series_mean example_pandas [] = None \<and>
   avg_daily example_pandas (anomaly_normalize example_pandas undated_frame) = Some 0 \<and>
   anomaly_lambda_handler example_pandas (stored undated_frame) =
     (\<lparr>statusCode = 200,
       body = Object [(''message'', JStr ''Processing complete.''),
                      (''file_processed'', JStr ''data/billing_agg_1.csv''),
                      (''records_analyzed'', JInt 0),
                      (''alerts_found'', JInt 0)]\<rparr>, [])"
proof -
  have e: "anomaly_normalize example_pandas undated_frame = []"
    by (simp add: anomaly_normalize_def undated_dates)
  have n: "series_mean example_pandas [] = None"
    by (simp add: example_pandas_def exact_mean_def)
  show ?thesis
    using empty_dataset_anomaly[OF stored_latest(1) stored_read(1) date_in_columns(2) e,
        of "\<lambda>col. 100"] e n
    by simp
qed

section \<open>A frame without a valid date\<close>

lemma billing_handler_run:
  assumes "get_month ev = Some m" and "m \<noteq> []"
    and "find_latest w billing_S3_PREFIX = Inr (Some k)"
    and "read_csv w BUCKET_NAME k = Inr df"
    and "''Date'' \<in> set (columns df)"
  shows "billing_lambda_handler pd w ev =
     (let drs = parse_dates pd df;
          monthly_df = filter (\<lambda>dr. strftime_Ym (fst dr) = m) (billing_normalize (columns df) drs)
      in if drs = [] then \<lparr>statusCode = 500, body = error_body ''No valid dates found in CSV''\<rparr>
         else if monthly_df = []
         then \<lparr>statusCode = 404, body = error_body (''No billing data found for month '' @ m)\<rparr>
         else \<lparr>statusCode = 200, body = Array (map (to_json_record pd) monthly_df)\<rparr>)"
  using assms
  by (simp add: billing_lambda_handler_def billing_try_def Let_def)

lemma filter_billing_normalize:
  "filter (\<lambda>dr. P (fst dr)) (billing_normalize present drs) =
   billing_normalize present (filter (\<lambda>dr. P (fst dr)) drs)"
  by (induction drs) (simp_all add: billing_normalize_def)

lemma billing_normalize_Nil_iff: "billing_normalize present drs = [] \<longleftrightarrow> drs = []"
  by (simp add: billing_normalize_def)

text \<open>
  C7. When no row of the frame has a date that parses, the anomaly handler goes on with
  the empty dataset and answers with status 200, and the query handler answers with
  status 500 and the message that no valid date was found, whatever the month asked for.
\<close>

theorem all_dates_invalid_asymmetry:
  assumes "\<forall>r\<in>set (rows df). parse_datetime pd (r ''Date'') = None"
    and "''Date'' \<in> set (columns df)"
    and "find_latest w anomaly_S3_PREFIX = Inr (Some ka)"
    and "read_csv w BUCKET_NAME ka = Inr df"
    and "find_latest w billing_S3_PREFIX = Inr (Some kb)"
    and "read_csv w BUCKET_NAME kb = Inr df"
    and "get_month ev = Some m" and "m \<noteq> []"
  shows "anomaly_lambda_handler pd w = (anomaly_ok ka 0 0, []) \<and>
         statusCode (fst (anomaly_lambda_handler pd w)) = 200 \<and>
         billing_lambda_handler pd w ev =
           \<lparr>statusCode = 500, body = error_body ''No valid dates found in CSV''\<rparr>"
proof -
  have e: "parse_dates pd df = []"
    using assms(1) by (simp add: parse_dates_empty_iff)
  then have n: "anomaly_normalize pd df = []"
    by (simp add: anomaly_normalize_def)
  have a: "anomaly_lambda_handler pd w = (anomaly_ok ka 0 0, [])"
    by (simp add: anomaly_handler_run[OF assms(3,4,2)] n detect_Nil)
  have b: "billing_lambda_handler pd w ev =
           \<lparr>statusCode = 500, body = error_body ''No valid dates found in CSV''\<rparr>"
    by (simp add: billing_handler_run[OF assms(7,8,5,6,2)] e)
  from a b show ?thesis by (simp add: anomaly_ok_def)
qed

theorem all_dates_invalid_asymmetry_witness:
  "list_all (\<lambda>r. parse_datetime example_pandas (r ''Date'') = None) (rows undated_frame) \<and>
   length (rows undated_frame) = 2 \<and>
   anomaly_lambda_handler example_pandas (stored undated_frame) =
     (anomaly_ok ''data/billing_agg_1.csv'' 0 0, []) \<and>
   billing_lambda_handler example_pandas (stored undated_frame) (month_event ''2025-10'') =
     \<lparr>statusCode = 500, body = error_body ''No valid dates found in CSV''\<rparr>"
proof -
  have h: "\<forall>r\<in>set (rows undated_frame). parse_datetime example_pandas (r ''Date'') = None"
    by (simp add: frame_defs example_pandas_def)
  have m: "''2025-10'' \<noteq> []" by simp
  show ?thesis
    using all_dates_invalid_asymmetry[OF h date_in_columns(2) stored_latest(1) stored_read(1)
        stored_latest(1) stored_read(1) month_event_month m] h
    by (simp add: list_all_iff undated_frame_def)
qed

section \<open>Status codes and error bodies\<close>

lemma billing_status_codes:
  "statusCode (billing_lambda_handler pd w ev) \<in> {200, 400, 404, 500}"
  by (auto simp: billing_lambda_handler_def billing_try_def Let_def
      split: option.splits sum.splits)

lemma billing_error_body:
  "statusCode (billing_lambda_handler pd w ev) \<noteq> 200 \<Longrightarrow>
     \<exists>msg rest. body (billing_lambda_handler pd w ev) = Object ((''error'', JStr msg) # rest)"
  by (auto simp: billing_lambda_handler_def billing_try_def Let_def error_body_def
      split: option.splits sum.splits if_splits)

lemma anomaly_status_codes:
  "statusCode (fst (anomaly_lambda_handler pd w)) \<in> {200, 404, 500}"
  by (auto simp: anomaly_lambda_handler_def anomaly_try_def Let_def anomaly_ok_def
      split: option.splits sum.splits prod.splits)

lemma anomaly_error_body:
  "statusCode (fst (anomaly_lambda_handler pd w)) = 500 \<Longrightarrow>
     \<exists>msg. body (fst (anomaly_lambda_handler pd w)) = Object [(''error'', JStr msg)]"
  by (auto simp: anomaly_lambda_handler_def anomaly_try_def Let_def anomaly_ok_def
      split: option.splits sum.splits prod.splits if_splits)

lemma billing_bad_request:
  "get_month ev = None \<or> get_month ev = Some [] \<Longrightarrow>
     billing_lambda_handler pd w ev =
       \<lparr>statusCode = 400, body = error_body ''Month parameter is required, e.g., ?month=2025-10''\<rparr>"
  by (auto simp: billing_lambda_handler_def billing_try_def)

lemma billing_schema_error:
  assumes "get_month ev = Some m" and "m \<noteq> []"
    and "find_latest w billing_S3_PREFIX = Inr (Some k)"
    and "read_csv w BUCKET_NAME k = Inr df"
    and "''Date'' \<notin> set (columns df)"
  shows "billing_lambda_handler pd w ev =
           \<lparr>statusCode = 500, body = error_body ''CSV missing 'Date' column''\<rparr>"
  using assms by (simp add: billing_lambda_handler_def billing_try_def)

lemma billing_internal_error:
  assumes "get_month ev = Some m" and "m \<noteq> []"
    and "find_latest w billing_S3_PREFIX = Inr (Some k)"
    and "read_csv w BUCKET_NAME k = Inl e"
  shows "billing_lambda_handler pd w ev =
           \<lparr>statusCode = 500,
            body = Object [(''error'', JStr ''Internal server error''), (''details'', JStr (str e))]\<rparr>"
  using assms by (simp add: billing_lambda_handler_def billing_try_def)

lemma anomaly_schema_error:
  assumes "find_latest w anomaly_S3_PREFIX = Inr (Some k)"
    and "read_csv w BUCKET_NAME k = Inr df"
    and "''Date'' \<notin> set (columns df)"
  shows "anomaly_lambda_handler pd w =
           (\<lparr>statusCode = 500,
             body = Object [(''error'', JStr ''CSV file is missing the required 'Date' column.'')]\<rparr>, [])"
  using assms by (simp add: anomaly_lambda_handler_def anomaly_try_def)

lemma anomaly_internal_error:
  assumes "find_latest w anomaly_S3_PREFIX = Inr (Some k)"
    and "read_csv w BUCKET_NAME k = Inl e"
  shows "anomaly_lambda_handler pd w =
           (\<lparr>statusCode = 500, body = Object [(''error'', JStr (str e))]\<rparr>, [])"
  using assms by (simp add: anomaly_lambda_handler_def anomaly_try_def)

lemma error_status_codes_base:
  "statusCode (billing_lambda_handler pd w ev) \<in> {200, 400, 404, 500} \<and>
   (statusCode (billing_lambda_handler pd w ev) \<noteq> 200 \<longrightarrow>
      (\<exists>msg rest. body (billing_lambda_handler pd w ev) = Object ((''error'', JStr msg) # rest))) \<and>
   statusCode (fst (anomaly_lambda_handler pd w)) \<in> {200, 404, 500} \<and>
   (statusCode (fst (anomaly_lambda_handler pd w)) = 500 \<longrightarrow>
      (\<exists>msg. body (fst (anomaly_lambda_handler pd w)) = Object [(''error'', JStr msg)])) \<and>
   (get_month ev = None \<or> get_month ev = Some [] \<longrightarrow>
      statusCode (billing_lambda_handler pd w ev) = 400) \<and>
   (find_latest w anomaly_S3_PREFIX = Inr None \<longrightarrow>
      statusCode (fst (anomaly_lambda_handler pd w)) = 404) \<and>
   (get_month ev = Some m \<and> m \<noteq> [] \<and> find_latest w billing_S3_PREFIX = Inr None \<longrightarrow>
      statusCode (billing_lambda_handler pd w ev) = 404) \<and>
   (find_latest w anomaly_S3_PREFIX = Inr (Some ka) \<and> read_csv w BUCKET_NAME ka = Inr dfa \<and>
    ''Date'' \<notin> set (columns dfa) \<longrightarrow>
      statusCode (fst (anomaly_lambda_handler pd w)) = 500) \<and>
   (find_latest w anomaly_S3_PREFIX = Inr (Some ka) \<and> read_csv w BUCKET_NAME ka = Inl e \<longrightarrow>
      statusCode (fst (anomaly_lambda_handler pd w)) = 500) \<and>
   (get_month ev = Some m \<and> m \<noteq> [] \<and> find_latest w billing_S3_PREFIX = Inr (Some kb) \<and>
    read_csv w BUCKET_NAME kb = Inr dfb \<and> ''Date'' \<notin> set (columns dfb) \<longrightarrow>
      billing_lambda_handler pd w ev =
        \<lparr>statusCode = 500, body = Object [(''error'', JStr ''CSV missing 'Date' column'')]\<rparr>) \<and>
   (get_month ev = Some m \<and> m \<noteq> [] \<and> find_latest w billing_S3_PREFIX = Inr (Some kb) \<and>
    read_csv w BUCKET_NAME kb = Inl e \<longrightarrow>
      billing_lambda_handler pd w ev =
        \<lparr>statusCode = 500,
         body = Object [(''error'', JStr ''Internal server error''), (''details'', JStr (str e))]\<rparr>)"
proof -
  have 1: "find_latest w anomaly_S3_PREFIX = Inr None \<longrightarrow>
      statusCode (fst (anomaly_lambda_handler pd w)) = 404"
    by (simp add: anomaly_lambda_handler_def anomaly_try_def)
  have 2: "get_month ev = Some m \<and> m \<noteq> [] \<and> find_latest w billing_S3_PREFIX = Inr None \<longrightarrow>
      statusCode (billing_lambda_handler pd w ev) = 404"
    by (simp add: billing_lambda_handler_def billing_try_def)
  have 3: "get_month ev = None \<or> get_month ev = Some [] \<longrightarrow>
      statusCode (billing_lambda_handler pd w ev) = 400"
    using billing_bad_request[of ev pd w] by auto
  have 4: "find_latest w anomaly_S3_PREFIX = Inr (Some ka) \<and> read_csv w BUCKET_NAME ka = Inr dfa \<and>
    ''Date'' \<notin> set (columns dfa) \<longrightarrow> statusCode (fst (anomaly_lambda_handler pd w)) = 500"
    using anomaly_schema_error[of w ka dfa pd] by auto
  have 5: "find_latest w anomaly_S3_PREFIX = Inr (Some ka) \<and> read_csv w BUCKET_NAME ka = Inl e \<longrightarrow>
      statusCode (fst (anomaly_lambda_handler pd w)) = 500"
    using anomaly_internal_error[of w ka e pd] by auto
  have 6: "get_month ev = Some m \<and> m \<noteq> [] \<and> find_latest w billing_S3_PREFIX = Inr (Some kb) \<and>
    read_csv w BUCKET_NAME kb = Inr dfb \<and> ''Date'' \<notin> set (columns dfb) \<longrightarrow>
      billing_lambda_handler pd w ev =
        \<lparr>statusCode = 500, body = Object [(''error'', JStr ''CSV missing 'Date' column'')]\<rparr>"
    using billing_schema_error[of ev m w kb dfb pd] by (auto simp: error_body_def)
  have 7: "get_month ev = Some m \<and> m \<noteq> [] \<and> find_latest w billing_S3_PREFIX = Inr (Some kb) \<and>
    read_csv w BUCKET_NAME kb = Inl e \<longrightarrow>
      billing_lambda_handler pd w ev =
        \<lparr>statusCode = 500,
         body = Object [(''error'', JStr ''Internal server error''), (''details'', JStr (str e))]\<rparr>"
    using billing_internal_error[of ev m w kb e pd] by auto
  show ?thesis
    using billing_status_codes[of pd w ev] billing_error_body[of pd w ev]
      anomaly_status_codes[of pd w] anomaly_error_body[of pd w] 1 2 3 4 5 6 7
    by blast
qed

lemma billing_listing:
  assumes "get_month ev = Some m" and "m \<noteq> []"
  shows "list_objects_v2 w BUCKET_NAME billing_S3_PREFIX = Inr None \<Longrightarrow>
           billing_lambda_handler pd w ev =
             \<lparr>statusCode = 404, body = Object [(''error'', JStr ''No billing files found in S3'')]\<rparr>"
    and "list_objects_v2 w BUCKET_NAME billing_S3_PREFIX = Inl e \<Longrightarrow>
           billing_lambda_handler pd w ev =
             \<lparr>statusCode = 500,
              body = Object [(''error'', JStr ''Internal server error''), (''details'', JStr (str e))]\<rparr>"
  using assms
  by (simp_all add: billing_lambda_handler_def billing_try_def find_latest_def error_body_def)

lemma anomaly_listing:
  shows "list_objects_v2 w BUCKET_NAME anomaly_S3_PREFIX = Inr None \<Longrightarrow>
           anomaly_lambda_handler pd w =
             (\<lparr>statusCode = 404, body = Plain ''No billing files found in S3''\<rparr>, [])"
    and "list_objects_v2 w BUCKET_NAME anomaly_S3_PREFIX = Inl e \<Longrightarrow>
           anomaly_lambda_handler pd w =
             (\<lparr>statusCode = 500, body = Object [(''error'', JStr (str e))]\<rparr>, [])"
  by (simp_all add: anomaly_lambda_handler_def anomaly_try_def find_latest_def)

lemma billing_dated:
  assumes "get_month ev = Some m" and "m \<noteq> []"
    and "find_latest w billing_S3_PREFIX = Inr (Some k)"
    and "read_csv w BUCKET_NAME k = Inr df"
    and "''Date'' \<in> set (columns df)"
  shows "parse_dates pd df = [] \<Longrightarrow>
           billing_lambda_handler pd w ev =
             \<lparr>statusCode = 500, body = Object [(''error'', JStr ''No valid dates found in CSV'')]\<rparr>"
    and "parse_dates pd df \<noteq> [] \<Longrightarrow>
         filter (\<lambda>dr. strftime_Ym (fst dr) = m) (parse_dates pd df) = [] \<Longrightarrow>
           billing_lambda_handler pd w ev =
             \<lparr>statusCode = 404,
              body = Object [(''error'', JStr (''No billing data found for month '' @ m))]\<rparr>"
proof -
  have f: "filter (\<lambda>dr. strftime_Ym (fst dr) = m) (billing_normalize (columns df) (parse_dates pd df))
             = billing_normalize (columns df)
                 (filter (\<lambda>dr. strftime_Ym (fst dr) = m) (parse_dates pd df))"
    by (rule filter_billing_normalize)
  show "parse_dates pd df = [] \<Longrightarrow>
           billing_lambda_handler pd w ev =
             \<lparr>statusCode = 500, body = Object [(''error'', JStr ''No valid dates found in CSV'')]\<rparr>"
    by (simp add: billing_handler_run[OF assms] error_body_def)
  show "parse_dates pd df \<noteq> [] \<Longrightarrow>
         filter (\<lambda>dr. strftime_Ym (fst dr) = m) (parse_dates pd df) = [] \<Longrightarrow>
           billing_lambda_handler pd w ev =
             \<lparr>statusCode = 404,
              body = Object [(''error'', JStr (''No billing data found for month '' @ m))]\<rparr>"
    by (simp add: billing_handler_run[OF assms] Let_def f billing_normalize_Nil_iff error_body_def
        del: filter_False)
qed

text \<open>
  C8, as the code has it. The query handler answers with one of the status codes 200,
  400, 404 and 500, and every answer other than 200 has a body whose first entry is
  \<open>error\<close> with a text; the anomaly handler answers with 200, 404 or 500, and every 500
  has the body \<open>{error: text}\<close>. A missing month gives 400, a listing without objects
  gives 404, and a frame without the \<^verbatim>\<open>Date\<close> column gives 500 just as an exception
  does: the schema error and the internal error share their status code, and on the
  query path differ in the body. Branch by branch: on the query path a missing or empty
  month gives 400; a listing without objects and a month without records give 404; a
  frame without the \<^verbatim>\<open>Date\<close> column and a frame without a valid date give 500
  with their own message; a listing or a read that raises gives 500 with the exception's
  text as details. On the anomaly path a listing without objects gives 404 and no
  publication; a listing, a read or a publication that raises, and a frame without the
  \<^verbatim>\<open>Date\<close> column, give 500 with the exception's text.
\<close>

theorem error_status_codes:
  "statusCode (billing_lambda_handler pd w ev) \<in> {200, 400, 404, 500} \<and>
   (statusCode (billing_lambda_handler pd w ev) \<noteq> 200 \<longrightarrow>
      (\<exists>msg rest. body (billing_lambda_handler pd w ev) = Object ((''error'', JStr msg) # rest))) \<and>
   statusCode (fst (anomaly_lambda_handler pd w)) \<in> {200, 404, 500} \<and>
   (statusCode (fst (anomaly_lambda_handler pd w)) = 500 \<longrightarrow>
      (\<exists>msg. body (fst (anomaly_lambda_handler pd w)) = Object [(''error'', JStr msg)])) \<and>
   (get_month ev = None \<or> get_month ev = Some [] \<longrightarrow>
      statusCode (billing_lambda_handler pd w ev) = 400) \<and>
   (find_latest w anomaly_S3_PREFIX = Inr None \<longrightarrow>
      statusCode (fst (anomaly_lambda_handler pd w)) = 404) \<and>
   (get_month ev = Some m \<and> m \<noteq> [] \<and> find_latest w billing_S3_PREFIX = Inr None \<longrightarrow>
      statusCode (billing_lambda_handler pd w ev) = 404) \<and>
   (find_latest w anomaly_S3_PREFIX = Inr (Some ka) \<and> read_csv w BUCKET_NAME ka = Inr dfa \<and>
    ''Date'' \<notin> set (columns dfa) \<longrightarrow>
      statusCode (fst (anomaly_lambda_handler pd w)) = 500) \<and>
   (find_latest w anomaly_S3_PREFIX = Inr (Some ka) \<and> read_csv w BUCKET_NAME ka = Inl e \<longrightarrow>
      statusCode (fst (anomaly_lambda_handler pd w)) = 500) \<and>
   (get_month ev = Some m \<and> m \<noteq> [] \<and> find_latest w billing_S3_PREFIX = Inr (Some kb) \<and>
    read_csv w BUCKET_NAME kb = Inr dfb \<and> ''Date'' \<notin> set (columns dfb) \<longrightarrow>
      billing_lambda_handler pd w ev =
        \<lparr>statusCode = 500, body = Object [(''error'', JStr ''CSV missing 'Date' column'')]\<rparr>) \<and>
   (get_month ev = Some m \<and> m \<noteq> [] \<and> find_latest w billing_S3_PREFIX = Inr (Some kb) \<and>
    read_csv w BUCKET_NAME kb = Inl e \<longrightarrow>
      billing_lambda_handler pd w ev =
        \<lparr>statusCode = 500,
         body = Object [(''error'', JStr ''Internal server error''), (''details'', JStr (str e))]\<rparr>) \<and>
   (get_month ev = None \<or> get_month ev = Some [] \<longrightarrow>
      billing_lambda_handler pd w ev =
        \<lparr>statusCode = 400,
         body = Object [(''error'', JStr ''Month parameter is required, e.g., ?month=2025-10'')]\<rparr>) \<and>
   (get_month ev = Some m \<and> m \<noteq> [] \<and>
    list_objects_v2 w BUCKET_NAME billing_S3_PREFIX = Inr None \<longrightarrow>
      billing_lambda_handler pd w ev =
        \<lparr>statusCode = 404, body = Object [(''error'', JStr ''No billing files found in S3'')]\<rparr>) \<and>
   (get_month ev = Some m \<and> m \<noteq> [] \<and>
    list_objects_v2 w BUCKET_NAME billing_S3_PREFIX = Inl e \<longrightarrow>
      billing_lambda_handler pd w ev =
        \<lparr>statusCode = 500,
         body = Object [(''error'', JStr ''Internal server error''), (''details'', JStr (str e))]\<rparr>) \<and>
   (get_month ev = Some m \<and> m \<noteq> [] \<and> find_latest w billing_S3_PREFIX = Inr (Some kb) \<and>
    read_csv w BUCKET_NAME kb = Inr dfb \<and> ''Date'' \<in> set (columns dfb) \<and>
    parse_dates pd dfb = [] \<longrightarrow>
      billing_lambda_handler pd w ev =
        \<lparr>statusCode = 500, body = Object [(''error'', JStr ''No valid dates found in CSV'')]\<rparr>) \<and>
   (get_month ev = Some m \<and> m \<noteq> [] \<and> find_latest w billing_S3_PREFIX = Inr (Some kb) \<and>
    read_csv w BUCKET_NAME kb = Inr dfb \<and> ''Date'' \<in> set (columns dfb) \<and>
    parse_dates pd dfb \<noteq> [] \<and>
    filter (\<lambda>dr. strftime_Ym (fst dr) = m) (parse_dates pd dfb) = [] \<longrightarrow>
      billing_lambda_handler pd w ev =
        \<lparr>statusCode = 404,
         body = Object [(''error'', JStr (''No billing data found for month '' @ m))]\<rparr>) \<and>
   (list_objects_v2 w BUCKET_NAME anomaly_S3_PREFIX = Inr None \<longrightarrow>
      statusCode (fst (anomaly_lambda_handler pd w)) = 404 \<and>
      snd (anomaly_lambda_handler pd w) = []) \<and>
   (list_objects_v2 w BUCKET_NAME anomaly_S3_PREFIX = Inl e \<longrightarrow>
      anomaly_lambda_handler pd w =
        (\<lparr>statusCode = 500, body = Object [(''error'', JStr (str e))]\<rparr>, [])) \<and>
   (find_latest w anomaly_S3_PREFIX = Inr (Some ka) \<and> read_csv w BUCKET_NAME ka = Inl e \<longrightarrow>
      anomaly_lambda_handler pd w =
        (\<lparr>statusCode = 500, body = Object [(''error'', JStr (str e))]\<rparr>, [])) \<and>
   (find_latest w anomaly_S3_PREFIX = Inr (Some ka) \<and> read_csv w BUCKET_NAME ka = Inr dfa \<and>
    ''Date'' \<notin> set (columns dfa) \<longrightarrow>
      anomaly_lambda_handler pd w =
        (\<lparr>statusCode = 500,
          body = Object [(''error'', JStr ''CSV file is missing the required 'Date' column.'')]\<rparr>,
         [])) \<and>
   (find_latest w anomaly_S3_PREFIX = Inr (Some ka) \<and> read_csv w BUCKET_NAME ka = Inr dfa \<and>
    ''Date'' \<in> set (columns dfa) \<and> detect pd (anomaly_normalize pd dfa) \<noteq> [] \<and>
    publish w SNS_TOPIC_ARN (anomaly_subject ka) (detect pd (anomaly_normalize pd dfa)) = Some e \<longrightarrow>
      fst (anomaly_lambda_handler pd w) =
        \<lparr>statusCode = 500, body = Object [(''error'', JStr (str e))]\<rparr>)"
proof -
  have n1: "get_month ev = None \<or> get_month ev = Some [] \<longrightarrow>
      billing_lambda_handler pd w ev =
        \<lparr>statusCode = 400,
         body = Object [(''error'', JStr ''Month parameter is required, e.g., ?month=2025-10'')]\<rparr>"
    using billing_bad_request[of ev pd w] by (auto simp: error_body_def)
  have n2: "get_month ev = Some m \<and> m \<noteq> [] \<and>
    list_objects_v2 w BUCKET_NAME billing_S3_PREFIX = Inr None \<longrightarrow>
      billing_lambda_handler pd w ev =
        \<lparr>statusCode = 404, body = Object [(''error'', JStr ''No billing files found in S3'')]\<rparr>"
    using billing_listing(1)[of ev m w pd] by blast
  have n3: "get_month ev = Some m \<and> m \<noteq> [] \<and>
    list_objects_v2 w BUCKET_NAME billing_S3_PREFIX = Inl e \<longrightarrow>
      billing_lambda_handler pd w ev =
        \<lparr>statusCode = 500,
         body = Object [(''error'', JStr ''Internal server error''), (''details'', JStr (str e))]\<rparr>"
    using billing_listing(2)[of ev m w e pd] by blast
  have n4: "get_month ev = Some m \<and> m \<noteq> [] \<and> find_latest w billing_S3_PREFIX = Inr (Some kb) \<and>
    read_csv w BUCKET_NAME kb = Inr dfb \<and> ''Date'' \<in> set (columns dfb) \<and>
    parse_dates pd dfb = [] \<longrightarrow>
      billing_lambda_handler pd w ev =
        \<lparr>statusCode = 500, body = Object [(''error'', JStr ''No valid dates found in CSV'')]\<rparr>"
    using billing_dated(1)[of ev m w kb dfb pd] by blast
  have n5: "get_month ev = Some m \<and> m \<noteq> [] \<and> find_latest w billing_S3_PREFIX = Inr (Some kb) \<and>
    read_csv w BUCKET_NAME kb = Inr dfb \<and> ''Date'' \<in> set (columns dfb) \<and>
    parse_dates pd dfb \<noteq> [] \<and>
    filter (\<lambda>dr. strftime_Ym (fst dr) = m) (parse_dates pd dfb) = [] \<longrightarrow>
      billing_lambda_handler pd w ev =
        \<lparr>statusCode = 404,
         body = Object [(''error'', JStr (''No billing data found for month '' @ m))]\<rparr>"
    using billing_dated(2)[of ev m w kb dfb pd] by blast
  have n6: "list_objects_v2 w BUCKET_NAME anomaly_S3_PREFIX = Inr None \<longrightarrow>
      statusCode (fst (anomaly_lambda_handler pd w)) = 404 \<and>
      snd (anomaly_lambda_handler pd w) = []"
    using anomaly_listing(1)[of w pd] by auto
  have n7: "list_objects_v2 w BUCKET_NAME anomaly_S3_PREFIX = Inl e \<longrightarrow>
      anomaly_lambda_handler pd w =
        (\<lparr>statusCode = 500, body = Object [(''error'', JStr (str e))]\<rparr>, [])"
    using anomaly_listing(2)[of w e pd] by blast
  have n8: "find_latest w anomaly_S3_PREFIX = Inr (Some ka) \<and> read_csv w BUCKET_NAME ka = Inl e \<longrightarrow>
      anomaly_lambda_handler pd w =
        (\<lparr>statusCode = 500, body = Object [(''error'', JStr (str e))]\<rparr>, [])"
    using anomaly_internal_error[of w ka e pd] by blast
  have n9: "find_latest w anomaly_S3_PREFIX = Inr (Some ka) \<and> read_csv w BUCKET_NAME ka = Inr dfa \<and>
    ''Date'' \<notin> set (columns dfa) \<longrightarrow>
      anomaly_lambda_handler pd w =
        (\<lparr>statusCode = 500,
          body = Object [(''error'', JStr ''CSV file is missing the required 'Date' column.'')]\<rparr>,
         [])"
    using anomaly_schema_error[of w ka dfa pd] by blast
  have n10: "find_latest w anomaly_S3_PREFIX = Inr (Some ka) \<and> read_csv w BUCKET_NAME ka = Inr dfa \<and>
    ''Date'' \<in> set (columns dfa) \<and> detect pd (anomaly_normalize pd dfa) \<noteq> [] \<and>
    publish w SNS_TOPIC_ARN (anomaly_subject ka) (detect pd (anomaly_normalize pd dfa)) = Some e \<longrightarrow>
      fst (anomaly_lambda_handler pd w) =
        \<lparr>statusCode = 500, body = Object [(''error'', JStr (str e))]\<rparr>"
    using anomaly_handler_run[of w ka dfa pd] by (auto simp: Let_def)
  show ?thesis
    using error_status_codes_base[of pd w ev m ka dfa e kb dfb] n1 n2 n3 n4 n5 n6 n7 n8 n9 n10
    by (simp only:) simp
qed

theorem error_status_codes_witness:
  "statusCode (billing_lambda_handler example_pandas empty_store \<lparr>queryStringParameters = None\<rparr>) = 400 \<and>
   statusCode (billing_lambda_handler example_pandas empty_store (month_event ''2025-10'')) = 404 \<and>
   statusCode (fst (anomaly_lambda_handler example_pandas empty_store)) = 404 \<and>
   statusCode (fst (anomaly_lambda_handler example_pandas (stored no_date_frame))) = 500 \<and>
   statusCode (fst (anomaly_lambda_handler example_pandas unreadable)) = 500 \<and>
   statusCode (billing_lambda_handler example_pandas (stored no_date_frame) (month_event ''2025-10'')) = 500 \<and>
   statusCode (billing_lambda_handler example_pandas unreadable (month_event ''2025-10'')) = 500 \<and>
   billing_lambda_handler example_pandas (stored undated_frame) (month_event ''2025-10'') =
     \<lparr>statusCode = 500, body = Object [(''error'', JStr ''No valid dates found in CSV'')]\<rparr> \<and>
   billing_lambda_handler example_pandas (stored two_months_frame) (month_event ''2025-11'') =
     \<lparr>statusCode = 404,
      body = Object [(''error'', JStr ''No billing data found for month 2025-11'')]\<rparr> \<and>
   billing_lambda_handler example_pandas unlisted (month_event ''2025-10'') =
     \<lparr>statusCode = 500,
      body = Object [(''error'', JStr ''Internal server error''),
                     (''details'', JStr ''listing failed'')]\<rparr> \<and>
   anomaly_lambda_handler example_pandas unlisted =
     (\<lparr>statusCode = 500, body = Object [(''error'', JStr ''listing failed'')]\<rparr>, []) \<and>
   fst (anomaly_lambda_handler example_pandas (stored_sns_down two_days_frame)) =
     \<lparr>statusCode = 500, body = Object [(''error'', JStr ''sns unavailable'')]\<rparr>"
proof -
  let ?k = "''data/billing_agg_1.csv''"
  have n: "get_month \<lparr>queryStringParameters = None\<rparr> = None" by (simp add: get_month_def)
  have m: "''2025-10'' \<noteq> []" "''2025-11'' \<noteq> []" by simp_all
  have 1: "statusCode (billing_lambda_handler example_pandas empty_store \<lparr>queryStringParameters = None\<rparr>) = 400"
    using error_status_codes[where pd = example_pandas and w = empty_store
        and ev = "\<lparr>queryStringParameters = None\<rparr>"] n
    by simp
  have 2: "statusCode (billing_lambda_handler example_pandas empty_store (month_event ''2025-10'')) = 404 \<and>
     statusCode (fst (anomaly_lambda_handler example_pandas empty_store)) = 404"
    using error_status_codes[where pd = example_pandas and w = empty_store
        and ev = "month_event ''2025-10''" and m = "''2025-10''"]
      month_event_month[of "''2025-10''"] m stored_latest(4)
    by simp
  have 3: "statusCode (fst (anomaly_lambda_handler example_pandas (stored no_date_frame))) = 500 \<and>
     statusCode (billing_lambda_handler example_pandas (stored no_date_frame) (month_event ''2025-10'')) = 500"
    using error_status_codes[where pd = example_pandas and w = "stored no_date_frame"
        and ev = "month_event ''2025-10''" and m = "''2025-10''" and ka = ?k and kb = ?k
        and dfa = no_date_frame and dfb = no_date_frame]
      month_event_month[of "''2025-10''"] m stored_latest(1) stored_read(1) date_in_columns(5)
    by simp
  have 4: "statusCode (fst (anomaly_lambda_handler example_pandas unreadable)) = 500 \<and>
     statusCode (billing_lambda_handler example_pandas unreadable (month_event ''2025-10'')) = 500"
    using error_status_codes[where pd = example_pandas and w = unreadable
        and ev = "month_event ''2025-10''" and m = "''2025-10''" and ka = ?k and kb = ?k
        and e = "Exception ''read failed''"]
      month_event_month[of "''2025-10''"] m stored_latest(3) stored_read(3)
    by simp
  have 5: "billing_lambda_handler example_pandas (stored undated_frame) (month_event ''2025-10'') =
     \<lparr>statusCode = 500, body = Object [(''error'', JStr ''No valid dates found in CSV'')]\<rparr>"
    using error_status_codes[where pd = example_pandas and w = "stored undated_frame"
        and ev = "month_event ''2025-10''" and m = "''2025-10''" and kb = ?k
        and dfb = undated_frame]
      month_event_month[of "''2025-10''"] m stored_latest(1) stored_read(1) date_in_columns(2)
      undated_dates
    by simp
  have nov: "parse_dates example_pandas two_months_frame \<noteq> []"
    "filter (\<lambda>dr. strftime_Ym (fst dr) = ''2025-11'') (parse_dates example_pandas two_months_frame) = []"
    by (simp_all add: parse_defs frame_defs date_defs)
  have 6: "billing_lambda_handler example_pandas (stored two_months_frame) (month_event ''2025-11'') =
     \<lparr>statusCode = 404,
      body = Object [(''error'', JStr ''No billing data found for month 2025-11'')]\<rparr>"
    using error_status_codes[where pd = example_pandas and w = "stored two_months_frame"
        and ev = "month_event ''2025-11''" and m = "''2025-11''" and kb = ?k
        and dfb = two_months_frame]
      month_event_month[of "''2025-11''"] m stored_latest(1) stored_read(1) date_in_columns(3) nov
    by simp
  have l: "list_objects_v2 unlisted b p = Inl (Exception ''listing failed'')" for b p
    by (simp add: unlisted_def)
  have 7: "billing_lambda_handler example_pandas unlisted (month_event ''2025-10'') =
     \<lparr>statusCode = 500,
      body = Object [(''error'', JStr ''Internal server error''),
                     (''details'', JStr ''listing failed'')]\<rparr> \<and>
     anomaly_lambda_handler example_pandas unlisted =
       (\<lparr>statusCode = 500, body = Object [(''error'', JStr ''listing failed'')]\<rparr>, [])"
    using error_status_codes[where pd = example_pandas and w = unlisted
        and ev = "month_event ''2025-10''" and m = "''2025-10''"
        and e = "Exception ''listing failed''"]
      month_event_month[of "''2025-10''"] m l
    by simp
  have ne: "detect example_pandas (anomaly_normalize example_pandas two_days_frame) \<noteq> []"
    by (simp add: two_days_alerts)
  have 8: "fst (anomaly_lambda_handler example_pandas (stored_sns_down two_days_frame)) =
     \<lparr>statusCode = 500, body = Object [(''error'', JStr ''sns unavailable'')]\<rparr>"
    using error_status_codes[where pd = example_pandas and w = "stored_sns_down two_days_frame"
        and ka = ?k and dfa = two_days_frame and e = "Exception ''sns unavailable''"]
      stored_latest(2) stored_read(2) date_in_columns(1) ne stored_publish(2)
    by simp
  from 1 2 3 4 5 6 7 8 show ?thesis by simp
qed

text \<open>
  C8 as stated fails: a frame without the \<^verbatim>\<open>Date\<close> column (schema error) and an
  object that cannot be read (internal error) give the same status code, on both
  handlers.
\<close>

theorem error_status_codes_counterexample:
  "billing_lambda_handler example_pandas (stored no_date_frame) (month_event ''2025-10'') =
     \<lparr>statusCode = 500, body = Object [(''error'', JStr ''CSV missing 'Date' column'')]\<rparr> \<and>
   billing_lambda_handler example_pandas unreadable (month_event ''2025-10'') =
     \<lparr>statusCode = 500,
      body = Object [(''error'', JStr ''Internal server error''), (''details'', JStr ''read failed'')]\<rparr> \<and>
   statusCode (fst (anomaly_lambda_handler example_pandas (stored no_date_frame))) =
   statusCode (fst (anomaly_lambda_handler example_pandas unreadable))"
  by (simp add: billing_lambda_handler_def billing_try_def anomaly_lambda_handler_def anomaly_try_def
      month_event_month stored_latest stored_read date_in_columns error_body_def)

section \<open>The records of a month\<close>

lemma digit_eq_iff: "digit a = digit b \<longleftrightarrow> a mod 10 = b mod 10"
proof -
  have d: "distinct ''0123456789''" by simp
  have "(''0123456789'' ! (a mod 10) = ''0123456789'' ! (b mod 10)) = (a mod 10 = b mod 10)"
    by (rule nth_eq_iff_index_eq[OF d]) simp_all
  then show ?thesis by (simp only: digit_def)
qed

lemma dec_step: "(a::nat) = 10 * (a div 10) + a mod 10"
  by simp

lemma digits2_inj:
  assumes "(a::nat) < 100" "b < 100" "a div 10 mod 10 = b div 10 mod 10" "a mod 10 = b mod 10"
  shows "a = b"
proof -
  have "a div 10 < 10" "b div 10 < 10" using assms(1,2) by simp_all
  then have "a div 10 = b div 10" using assms(3) by simp
  then show ?thesis using dec_step[of a] dec_step[of b] assms(4) by (simp only:)
qed

lemma digits4_inj:
  assumes "(a::nat) < 10000" "b < 10000"
    and "a div 1000 mod 10 = b div 1000 mod 10" "a div 100 mod 10 = b div 100 mod 10"
    and "a div 10 mod 10 = b div 10 mod 10" "a mod 10 = b mod 10"
  shows "a = b"
proof -
  have s2: "x div 10 = 10 * (x div 100) + x div 10 mod 10" for x :: nat
    using dec_step[of "x div 10"] by (simp add: div_mult2_eq[symmetric])
  have s3: "x div 100 = 10 * (x div 1000) + x div 100 mod 10" for x :: nat
    using dec_step[of "x div 100"] by (simp add: div_mult2_eq[symmetric])
  have "a div 1000 < 10" "b div 1000 < 10" using assms(1,2) by simp_all
  then have 3: "a div 1000 = b div 1000" using assms(3) by simp
  have "a div 100 = b div 100"
    using s3[of a] s3[of b] 3 assms(4) by (simp only:)
  then have "a div 10 = b div 10"
    using s2[of a] s2[of b] assms(5) by (simp only:)
  then show ?thesis using dec_step[of a] dec_step[of b] assms(6) by (simp only:)
qed

lemma pad2_eq_iff: "a < 100 \<Longrightarrow> b < 100 \<Longrightarrow> pad2 a = pad2 b \<longleftrightarrow> a = b"
  using digits2_inj[of a b] by (auto simp: pad2_def digit_eq_iff)

lemma pad4_eq_iff: "a < 10000 \<Longrightarrow> b < 10000 \<Longrightarrow> pad4 a = pad4 b \<longleftrightarrow> a = b"
  using digits4_inj[of a b] by (auto simp: pad4_def digit_eq_iff)

lemma strftime_Ym_same_month:
  assumes "valid_date d" and "valid_date d'"
  shows "strftime_Ym d = strftime_Ym d' \<longleftrightarrow> dyear d = dyear d' \<and> dmonth d = dmonth d'"
proof -
  have y: "dyear d < 10000" "dyear d' < 10000" and m: "dmonth d < 100" "dmonth d' < 100"
    using assms by (simp_all add: valid_date_def)
  have l: "length (pad4 (dyear d)) = length (pad4 (dyear d'))" by (simp add: pad4_def)
  show ?thesis
    using pad4_eq_iff[OF y] pad2_eq_iff[OF m] l by (simp add: strftime_Ym_def)
qed

lemma to_json_record_keys:
  "map fst (to_json_record pd dr) =
     [''Date'', ''total_Sub_metering_1'', ''total_Sub_metering_2'', ''total_Sub_metering_3'',
      ''avg_submetering_value'', ''total_daily_sum'', ''peak_charge'', ''offpeak_charge'',
      ''total_charge'']"
  by (simp add: to_json_record_def billing_cols_def)

text \<open>
  C9, as the code has it. When some record's year and month, written \<^verbatim>\<open>%Y-%m\<close>,
  equal the month asked for, the response has status 200 and its body lists exactly those
  records, in frame order, with missing cells of the billing columns filled with 0. Every
  record has the keys \<^verbatim>\<open>Date\<close>, the three sub-metering columns,
  \<^verbatim>\<open>avg_submetering_value\<close>, \<^verbatim>\<open>total_daily_sum\<close>, \<^verbatim>\<open>peak_charge\<close>,
  \<^verbatim>\<open>offpeak_charge\<close>, \<^verbatim>\<open>total_charge\<close>, in this order; its date is written
  day-month-year; and a valid date is selected exactly when it lies in the calendar month
  of a date that is written as the month asked for.
\<close>

theorem monthly_query_records:
  assumes "get_month ev = Some m" and "m \<noteq> []"
    and "find_latest w billing_S3_PREFIX = Inr (Some k)"
    and "read_csv w BUCKET_NAME k = Inr df"
    and "''Date'' \<in> set (columns df)"
    and "filter (\<lambda>dr. strftime_Ym (fst dr) = m) (parse_dates pd df) \<noteq> []"
  shows "billing_lambda_handler pd w ev =
           \<lparr>statusCode = 200,
            body = Array (map (to_json_record pd)
                     (billing_normalize (columns df)
                        (filter (\<lambda>dr. strftime_Ym (fst dr) = m) (parse_dates pd df))))\<rparr> \<and>
         map fst (to_json_record pd dr) =
           [''Date'', ''total_Sub_metering_1'', ''total_Sub_metering_2'', ''total_Sub_metering_3'',
            ''avg_submetering_value'', ''total_daily_sum'', ''peak_charge'', ''offpeak_charge'',
            ''total_charge''] \<and>
         hd (to_json_record pd dr) =
           (''Date'', JStr (pad2 (dday (fst dr)) @ ''-'' @ pad2 (dmonth (fst dr)) @ ''-'' @
                            pad4 (dyear (fst dr)))) \<and>
         (valid_date d \<and> valid_date d' \<and> strftime_Ym d' = m \<longrightarrow>
            (strftime_Ym d = m \<longleftrightarrow> dyear d = dyear d' \<and> dmonth d = dmonth d'))"
proof -
  let ?sel = "filter (\<lambda>dr. strftime_Ym (fst dr) = m) (parse_dates pd df)"
  have ne: "parse_dates pd df \<noteq> []" using assms(6) by auto
  have f: "filter (\<lambda>dr. strftime_Ym (fst dr) = m) (billing_normalize (columns df) (parse_dates pd df))
             = billing_normalize (columns df) ?sel"
    by (rule filter_billing_normalize)
  have 1: "billing_lambda_handler pd w ev =
           \<lparr>statusCode = 200, body = Array (map (to_json_record pd) (billing_normalize (columns df) ?sel))\<rparr>"
    using ne assms(6)
    by (simp add: billing_handler_run[OF assms(1-5)] f billing_normalize_Nil_iff del: filter_False)
  have 3: "hd (to_json_record pd dr) =
           (''Date'', JStr (pad2 (dday (fst dr)) @ ''-'' @ pad2 (dmonth (fst dr)) @ ''-'' @
                            pad4 (dyear (fst dr))))"
    by (simp add: to_json_record_def strftime_dmY_def)
  have 4: "valid_date d \<and> valid_date d' \<and> strftime_Ym d' = m \<longrightarrow>
            (strftime_Ym d = m \<longleftrightarrow> dyear d = dyear d' \<and> dmonth d = dmonth d')"
    using strftime_Ym_same_month[of d d'] by auto
  from 1 to_json_record_keys[of pd dr] 3 4 show ?thesis by blast
qed

theorem monthly_query_records_witness:
  "valid_date oct1 \<and> valid_date oct2 \<and> strftime_Ym oct2 = ''2025-10'' \<and> strftime_Ym oct1 = ''2025-10'' \<and>
   billing_lambda_handler example_pandas (stored two_months_frame) (month_event ''2025-10'') =
     \<lparr>statusCode = 200,
      body = Array
       [[(''Date'', JStr ''01-10-2025''),
         (''total_Sub_metering_1'', JNum 0),
         (''total_Sub_metering_2'', JNum 0),
         (''total_Sub_metering_3'', JNum 0),
         (''avg_submetering_value'', JNum 0),
         (''total_daily_sum'', JNum 10), (''peak_charge'', JNum 0),
         (''offpeak_charge'', JNum 0), (''total_charge'', JNum 0)]]\<rparr>"
proof -
  have m: "''2025-10'' \<noteq> []" by simp
  have sel: "filter (\<lambda>dr. strftime_Ym (fst dr) = ''2025-10'') (parse_dates example_pandas two_months_frame) \<noteq> []"
    using two_months_selected by auto
  have v: "valid_date oct1" "valid_date oct2" "strftime_Ym oct2 = ''2025-10''"
    by (simp_all add: valid_date_def oct1_def oct2_def date_defs)
  have r: "map (to_json_record example_pandas)
             (billing_normalize (columns two_months_frame)
                (filter (\<lambda>dr. strftime_Ym (fst dr) = ''2025-10'')
                   (parse_dates example_pandas two_months_frame))) =
       [[(''Date'', JStr ''01-10-2025''),
         (''total_Sub_metering_1'', JNum 0),
         (''total_Sub_metering_2'', JNum 0),
         (''total_Sub_metering_3'', JNum 0),
         (''avg_submetering_value'', JNum 0),
         (''total_daily_sum'', JNum 10), (''peak_charge'', JNum 0),
         (''offpeak_charge'', JNum 0), (''total_charge'', JNum 0)]]"
    by (simp add: parse_defs frame_defs date_defs billing_defs)
  show ?thesis
    using monthly_query_records[OF month_event_month m stored_latest(1) stored_read(1)
        date_in_columns(3) sel, of "(oct1, mk_row [])" oct1 oct2] v r
    by (simp add: oct1_def oct2_def)
qed

text \<open>
  C9 as stated fails in the column order: \<^verbatim>\<open>avg_submetering_value\<close> comes right
  after the sub-metering columns, not last.
\<close>

theorem column_order_counterexample:
  "statusCode october_query = 200 \<and>
   record_keys (body october_query) =
     [[''Date'', ''total_Sub_metering_1'', ''total_Sub_metering_2'', ''total_Sub_metering_3'',
       ''avg_submetering_value'', ''total_daily_sum'', ''peak_charge'', ''offpeak_charge'',
       ''total_charge'']] \<and>
   record_keys (body october_query) \<noteq> [claimed_column_order]"
  by (simp add: october_query_value record_keys_def claimed_column_order_def)

end
